theory Spec2Isabelle
  imports Main "HOL-Library.Word"
begin

section \<open>Values of the plugin framework\<close>

text \<open>
  The provider keeps every attribute of a resource in one of the framework's wrapper
  types (\<^verbatim>\<open>types.String\<close>, \<^verbatim>\<open>types.Bool\<close>, \<^verbatim>\<open>types.Int64\<close>, \<^verbatim>\<open>types.Float64\<close>,
  \<^verbatim>\<open>types.Set\<close>). The framework is an external library; the source only tests a wrapper
  with \<^verbatim>\<open>IsNull()\<close> and \<^verbatim>\<open>IsUnknown()\<close> and reads its value.
\<close>

text \<open>
  Modelled from the spec: the framework's wrapper types, declared outside the repository.
  The spec's data model gives an attribute the states unset and present, the unset state
  being encoded by the sentinel null and unknown wrapper values.
\<close>

datatype 'a tfvalue = Null | Unknown | Known 'a

fun IsNull :: "'a tfvalue \<Rightarrow> bool" where
  "IsNull Null = True"
| "IsNull _ = False"

fun IsUnknown :: "'a tfvalue \<Rightarrow> bool" where
  "IsUnknown Unknown = True"
| "IsUnknown _ = False"

type_synonym int64 = "64 word"

text \<open>
  The value a wrapper carries (\<^verbatim>\<open>ValueString()\<close>, and the \<^verbatim>\<open>.Value\<close> field of the older
  framework releases): the Go zero value when the wrapper is null or unknown.
\<close>

fun ValueString :: "string tfvalue \<Rightarrow> string" where
  "ValueString (Known s) = s"
| "ValueString _ = []"

fun ValueBool :: "bool tfvalue \<Rightarrow> bool" where
  "ValueBool (Known b) = b"
| "ValueBool _ = False"

fun ValueInt64 :: "int64 tfvalue \<Rightarrow> int64" where
  "ValueInt64 (Known i) = i"
| "ValueInt64 _ = 0"


section \<open>Language profiles: \<^verbatim>\<open>language_profile_resource.go\<close>\<close>

text \<open>\<^verbatim>\<open>starr.Value\<close>: a numeric identifier with its name.\<close>

record starr_Value =
  Value_ID :: int64
  Value_Name :: string

text \<open>\<^verbatim>\<open>sonarr.Language\<close> and \<^verbatim>\<open>sonarr.LanguageProfile\<close>, the request sent to the server.\<close>

record sonarr_Language =
  Allowed :: bool
  Language :: starr_Value

record sonarr_LanguageProfile =
  Profile_Name :: string
  Profile_UpgradeAllowed :: bool
  Cutoff :: starr_Value
  Languages :: "sonarr_Language list"
  Profile_ID :: int64

text \<open>
  \<^verbatim>\<open>LanguageProfile\<close>, the provider's schema model of the resource. Its declaration is in
  another file of the package; the fields are those \<^verbatim>\<open>writeLanguageProfile\<close> fills.
\<close>

record LanguageProfile =
  LP_UpgradeAllowed :: "bool tfvalue"
  LP_ID :: "int64 tfvalue"
  LP_Name :: "string tfvalue"
  LP_CutoffLanguage :: "string tfvalue"
  LP_Languages :: "string tfvalue list"

text \<open>The fixed table of \<^verbatim>\<open>getLanguageID\<close>, in the order of the source.\<close>

definition languages :: "starr_Value list" where
  "languages =
    [\<lparr>Value_ID = 0, Value_Name = ''Unknown''\<rparr>,
     \<lparr>Value_ID = 1, Value_Name = ''English''\<rparr>,
     \<lparr>Value_ID = 2, Value_Name = ''French''\<rparr>,
     \<lparr>Value_ID = 3, Value_Name = ''Spanish''\<rparr>,
     \<lparr>Value_ID = 4, Value_Name = ''German''\<rparr>,
     \<lparr>Value_ID = 5, Value_Name = ''Italian''\<rparr>,
     \<lparr>Value_ID = 6, Value_Name = ''Danish''\<rparr>,
     \<lparr>Value_ID = 7, Value_Name = ''Dutch''\<rparr>,
     \<lparr>Value_ID = 8, Value_Name = ''Japanese''\<rparr>,
     \<lparr>Value_ID = 9, Value_Name = ''Icelandic''\<rparr>,
     \<lparr>Value_ID = 10, Value_Name = ''Chinese''\<rparr>,
     \<lparr>Value_ID = 11, Value_Name = ''Russian''\<rparr>,
     \<lparr>Value_ID = 12, Value_Name = ''Polish''\<rparr>,
     \<lparr>Value_ID = 13, Value_Name = ''Vietnamese''\<rparr>,
     \<lparr>Value_ID = 14, Value_Name = ''Swedish''\<rparr>,
     \<lparr>Value_ID = 15, Value_Name = ''Norwegian''\<rparr>,
     \<lparr>Value_ID = 16, Value_Name = ''Finnish''\<rparr>,
     \<lparr>Value_ID = 17, Value_Name = ''Turkish''\<rparr>,
     \<lparr>Value_ID = 18, Value_Name = ''Portuguese''\<rparr>,
     \<lparr>Value_ID = 19, Value_Name = ''Flemish''\<rparr>,
     \<lparr>Value_ID = 20, Value_Name = ''Greek''\<rparr>,
     \<lparr>Value_ID = 21, Value_Name = ''Korean''\<rparr>,
     \<lparr>Value_ID = 22, Value_Name = ''Hungarian''\<rparr>,
     \<lparr>Value_ID = 23, Value_Name = ''Hebrew''\<rparr>,
     \<lparr>Value_ID = 24, Value_Name = ''Lithuanian''\<rparr>,
     \<lparr>Value_ID = 25, Value_Name = ''Czech''\<rparr>,
     \<lparr>Value_ID = 26, Value_Name = ''Arabic''\<rparr>,
     \<lparr>Value_ID = 27, Value_Name = ''Hindi''\<rparr>,
     \<lparr>Value_ID = 28, Value_Name = ''Bulgarian''\<rparr>]"

text \<open>
  The loop of \<^verbatim>\<open>getLanguageID\<close>: the identifier of the first table entry with the given
  name, and 0 when the table is exhausted.
\<close>

fun findLanguageID :: "starr_Value list \<Rightarrow> string \<Rightarrow> int64" where
  "findLanguageID [] language = 0"
| "findLanguageID (l # ls) language =
     (if Value_Name l = language then Value_ID l else findLanguageID ls language)"

definition getLanguageID :: "string \<Rightarrow> int64" where
  "getLanguageID language = findLanguageID languages language"

text \<open>One element of the slice \<^verbatim>\<open>readLanguageProfile\<close> builds.\<close>

definition readLanguage :: "string tfvalue \<Rightarrow> sonarr_Language" where
  "readLanguage l =
     \<lparr>Allowed = True,
      Language = \<lparr>Value_ID = getLanguageID (ValueString l), Value_Name = ValueString l\<rparr>\<rparr>"

definition readLanguageProfile :: "LanguageProfile \<Rightarrow> sonarr_LanguageProfile" where
  "readLanguageProfile profile =
     \<lparr>Profile_Name = ValueString (LP_Name profile),
      Profile_UpgradeAllowed = ValueBool (LP_UpgradeAllowed profile),
      Cutoff = \<lparr>Value_ID = getLanguageID (ValueString (LP_CutoffLanguage profile)),
                Value_Name = ValueString (LP_CutoffLanguage profile)\<rparr>,
      Languages = map readLanguage (LP_Languages profile),
      Profile_ID = ValueInt64 (LP_ID profile)\<rparr>"


section \<open>Provider configuration: \<^verbatim>\<open>SonarrProvider.Configure\<close>\<close>

datatype severity = SeverityError | SeverityWarning

text \<open>
  A diagnostic of the framework: its severity, summary and detail, and the attribute path of
  a diagnostic that has one. Two diagnostics are equal when they agree in all four.
\<close>

record diagnostic =
  Severity :: severity
  Summary :: string
  Detail :: string
  Path :: "string option"

definition HasError :: "diagnostic list \<Rightarrow> bool" where
  "HasError ds = list_ex (\<lambda>d. Severity d = SeverityError) ds"

text \<open>
  \<^verbatim>\<open>Diagnostics.Append\<close>: each diagnostic in turn is added at the end of the collection
  unless the collection already contains an equal one.
\<close>

fun Append :: "diagnostic list \<Rightarrow> diagnostic list \<Rightarrow> diagnostic list" where
  "Append diags [] = diags"
| "Append diags (d # ds) = Append (if d \<in> set diags then diags else diags @ [d]) ds"

text \<open>
  \<^verbatim>\<open>AddWarning\<close> and \<^verbatim>\<open>AddError\<close> build a diagnostic without a path and add it with
  \<^verbatim>\<open>Append\<close>.
\<close>

definition AddWarning :: "string \<Rightarrow> string \<Rightarrow> diagnostic list \<Rightarrow> diagnostic list" where
  "AddWarning s d ds =
     Append ds [\<lparr>Severity = SeverityWarning, Summary = s, Detail = d, Path = None\<rparr>]"

definition AddError :: "string \<Rightarrow> string \<Rightarrow> diagnostic list \<Rightarrow> diagnostic list" where
  "AddError s d ds =
     Append ds [\<lparr>Severity = SeverityError, Summary = s, Detail = d, Path = None\<rparr>]"

text \<open>\<^verbatim>\<open>Sonarr\<close>, the provider data model.\<close>

record Sonarr =
  Sonarr_APIKey :: "string tfvalue"
  Sonarr_URL :: "string tfvalue"

text \<open>
  The request, as far as \<^verbatim>\<open>Configure\<close> looks at it: what \<^verbatim>\<open>req.Config.Get\<close> decodes and the
  diagnostics it returns.
\<close>

record ConfigureRequest =
  Config_Get_data :: Sonarr
  Config_Get_diags :: "diagnostic list"

text \<open>
  The API client of the SDK, as far as \<^verbatim>\<open>Configure\<close> determines it: the default header
  \<^verbatim>\<open>X-Api-Key\<close> and the URL of the first server of its configuration.
\<close>

record APIClient =
  Header_X_Api_Key :: string
  Servers_0_URL :: string

record ConfigureResponse =
  Diagnostics :: "diagnostic list"
  DataSourceData :: "APIClient option"
  ResourceData :: "APIClient option"

text \<open>\<^verbatim>\<open>os.Getenv\<close>: the empty string for a variable that is not set.\<close>

definition Getenv :: "(string \<rightharpoonup> string) \<Rightarrow> string \<Rightarrow> string" where
  "Getenv env k = (case env k of None \<Rightarrow> [] | Some v \<Rightarrow> v)"

definition Configure ::
  "(string \<rightharpoonup> string) \<Rightarrow> ConfigureRequest \<Rightarrow> ConfigureResponse \<Rightarrow> ConfigureResponse" where
  "Configure env req resp0 =
    (let data = Config_Get_data req;
         resp = resp0\<lparr>Diagnostics := Append (Diagnostics resp0) (Config_Get_diags req)\<rparr>
     in if HasError (Diagnostics resp) then resp
        else if IsUnknown (Sonarr_URL data) then
          resp\<lparr>Diagnostics := AddWarning ''Unable to create client''
                  ''Cannot use unknown value as url'' (Diagnostics resp)\<rparr>
        else
          let url = (if IsNull (Sonarr_URL data) then Getenv env ''SONARR_URL''
                     else ValueString (Sonarr_URL data))
          in if url = [] then
               resp\<lparr>Diagnostics := AddError ''Unable to find URL''
                       ''URL cannot be an empty string'' (Diagnostics resp)\<rparr>
             else if IsUnknown (Sonarr_APIKey data) then
               resp\<lparr>Diagnostics := AddWarning ''Unable to create client''
                       ''Cannot use unknown value as api_key'' (Diagnostics resp)\<rparr>
             else
               let key = (if IsNull (Sonarr_APIKey data) then Getenv env ''SONARR_API_KEY''
                          else ValueString (Sonarr_APIKey data))
               in if key = [] then
                    resp\<lparr>Diagnostics := AddError ''Unable to find API key''
                            ''API key cannot be an empty string'' (Diagnostics resp)\<rparr>
                  else
                    let client = \<lparr>Header_X_Api_Key = key, Servers_0_URL = url\<rparr>
                    in resp\<lparr>DataSourceData := Some client, ResourceData := Some client\<rparr>)"

text \<open>
  The value \<^verbatim>\<open>Configure\<close> resolves for an attribute that is not unknown: the environment
  variable for a null attribute, the configured string otherwise.
\<close>

definition resolved :: "(string \<rightharpoonup> string) \<Rightarrow> string \<Rightarrow> string tfvalue \<Rightarrow> string" where
  "resolved env var v = (if IsNull v then Getenv env var else ValueString v)"


section \<open>The dynamic fields of an indexer: \<^verbatim>\<open>indexer_resource.go\<close>\<close>

subsection \<open>Field entries\<close>

text \<open>
  A 64-bit floating-point number is only ever copied by the marshaler, never computed with:
  it is kept as its IEEE 754 bit pattern.
\<close>

type_synonym float64 = "64 word"

text \<open>
  Modelled from the spec: the value of a field entry, which the SDK (outside the repository)
  declares as an untyped \<^verbatim>\<open>interface{}\<close>. The spec's data model lists its kinds: absent,
  boolean, integer, floating-point, string, list of integers, list of strings. An integer on
  the wire is not bounded.
\<close>

datatype field_value =
    Absent
  | BoolValue bool
  | IntValue int
  | FloatValue float64
  | StringValue string
  | IntListValue "int list"
  | StringListValue "string list"

text \<open>
  The spec's FieldEntry: \<^verbatim>\<open>starr.FieldOutput\<close> in a response and \<^verbatim>\<open>starr.FieldInput\<close> in a
  request, of which the marshaler uses the name and the value.
\<close>

record FieldEntry =
  Field_Name :: string
  Field_Value :: field_value

subsection \<open>The indexer data model and its partitions\<close>

record Indexer =
  Tags :: "int64 list tfvalue"
  Categories :: "int64 list tfvalue"
  AnimeCategories :: "int64 list tfvalue"
  APIPath :: "string tfvalue"
  AdditionalParameters :: "string tfvalue"
  Username :: "string tfvalue"
  ConfigContract :: "string tfvalue"
  Implementation :: "string tfvalue"
  Name :: "string tfvalue"
  Protocol :: "string tfvalue"
  Passkey :: "string tfvalue"
  Cookie :: "string tfvalue"
  CaptchaToken :: "string tfvalue"
  BaseURL :: "string tfvalue"
  APIKey :: "string tfvalue"
  Priority :: "int64 tfvalue"
  DownloadClientID :: "int64 tfvalue"
  SeedTime :: "int64 tfvalue"
  SeedRatio :: "float64 tfvalue"
  MinimumSeeders :: "int64 tfvalue"
  Delay :: "int64 tfvalue"
  ID :: "int64 tfvalue"
  SeasonPackSeedTime :: "int64 tfvalue"
  AnimeStandardFormatSearch :: "bool tfvalue"
  AllowZeroSize :: "bool tfvalue"
  RankedOnly :: "bool tfvalue"
  EnableAutomaticSearch :: "bool tfvalue"
  EnableRss :: "bool tfvalue"
  EnableInteractiveSearch :: "bool tfvalue"

definition indexerIntSliceFields :: "string list" where
  "indexerIntSliceFields = [''categories'', ''animeCategories'']"

definition indexerBoolFields :: "string list" where
  "indexerBoolFields = [''allowZeroSize'', ''animeStandardFormatSearch'', ''rankedOnly'']"

definition indexerIntFields :: "string list" where
  "indexerIntFields = [''delay'', ''minimumSeeders'', ''seasonPackSeedTime'', ''seedTime'']"

definition indexerStringFields :: "string list" where
  "indexerStringFields =
     [''additionalParameters'', ''apiKey'', ''apiPath'', ''baseUrl'', ''captchaToken'',
      ''cookie'', ''passkey'', ''username'']"

definition indexerFloatFields :: "string list" where
  "indexerFloatFields = [''seedRatio'']"

subsection \<open>The helpers\<close>

text \<open>
  Modelled from the spec: the package \<^verbatim>\<open>internal/helpers\<close>, whose functions
  \<^verbatim>\<open>WriteStringField\<close>, \<^verbatim>\<open>WriteBoolField\<close>, \<^verbatim>\<open>WriteIntField\<close>, \<^verbatim>\<open>WriteFloatField\<close>,
  \<^verbatim>\<open>WriteIntSliceField\<close> and \<^verbatim>\<open>ReadBoolField\<close>, \<^verbatim>\<open>ReadIntField\<close>, \<^verbatim>\<open>ReadFloatField\<close>,
  \<^verbatim>\<open>ReadStringField\<close>, \<^verbatim>\<open>ReadIntSliceField\<close> are called by the indexer resource and are
  not part of the sources at hand. By the spec, each field-backed attribute is bound by name
  to exactly one member of a partition; the inbound direction coerces a present value to the
  attribute's type and sets the attribute as present, and fails loudly on a value of another
  type; the outbound direction omits an unset attribute and otherwise emits an entry with
  the field's name and the attribute's value in its wire representation.
\<close>

text \<open>
  Modelled from the spec: the binding, which the helpers of \<^verbatim>\<open>internal/helpers\<close> establish,
  of each field name to the one attribute of the record it backs, by type. A name that backs
  no attribute of the type has none.
\<close>

definition bool_attribute :: "string \<Rightarrow> Indexer \<Rightarrow> bool tfvalue option" where
  "bool_attribute n i =
     (if n = ''allowZeroSize'' then Some (AllowZeroSize i)
      else if n = ''animeStandardFormatSearch'' then Some (AnimeStandardFormatSearch i)
      else if n = ''rankedOnly'' then Some (RankedOnly i)
      else None)"

definition set_bool_attribute :: "string \<Rightarrow> bool tfvalue \<Rightarrow> Indexer \<Rightarrow> Indexer option" where
  "set_bool_attribute n v i =
     (if n = ''allowZeroSize'' then Some (i\<lparr>AllowZeroSize := v\<rparr>)
      else if n = ''animeStandardFormatSearch'' then Some (i\<lparr>AnimeStandardFormatSearch := v\<rparr>)
      else if n = ''rankedOnly'' then Some (i\<lparr>RankedOnly := v\<rparr>)
      else None)"

definition int_attribute :: "string \<Rightarrow> Indexer \<Rightarrow> int64 tfvalue option" where
  "int_attribute n i =
     (if n = ''delay'' then Some (Delay i)
      else if n = ''minimumSeeders'' then Some (MinimumSeeders i)
      else if n = ''seasonPackSeedTime'' then Some (SeasonPackSeedTime i)
      else if n = ''seedTime'' then Some (SeedTime i)
      else None)"

definition set_int_attribute :: "string \<Rightarrow> int64 tfvalue \<Rightarrow> Indexer \<Rightarrow> Indexer option" where
  "set_int_attribute n v i =
     (if n = ''delay'' then Some (i\<lparr>Delay := v\<rparr>)
      else if n = ''minimumSeeders'' then Some (i\<lparr>MinimumSeeders := v\<rparr>)
      else if n = ''seasonPackSeedTime'' then Some (i\<lparr>SeasonPackSeedTime := v\<rparr>)
      else if n = ''seedTime'' then Some (i\<lparr>SeedTime := v\<rparr>)
      else None)"

definition float_attribute :: "string \<Rightarrow> Indexer \<Rightarrow> float64 tfvalue option" where
  "float_attribute n i = (if n = ''seedRatio'' then Some (SeedRatio i) else None)"

definition set_float_attribute :: "string \<Rightarrow> float64 tfvalue \<Rightarrow> Indexer \<Rightarrow> Indexer option" where
  "set_float_attribute n v i = (if n = ''seedRatio'' then Some (i\<lparr>SeedRatio := v\<rparr>) else None)"

definition string_attribute :: "string \<Rightarrow> Indexer \<Rightarrow> string tfvalue option" where
  "string_attribute n i =
     (if n = ''additionalParameters'' then Some (AdditionalParameters i)
      else if n = ''apiKey'' then Some (APIKey i)
      else if n = ''apiPath'' then Some (APIPath i)
      else if n = ''baseUrl'' then Some (BaseURL i)
      else if n = ''captchaToken'' then Some (CaptchaToken i)
      else if n = ''cookie'' then Some (Cookie i)
      else if n = ''passkey'' then Some (Passkey i)
      else if n = ''username'' then Some (Username i)
      else None)"

definition set_string_attribute :: "string \<Rightarrow> string tfvalue \<Rightarrow> Indexer \<Rightarrow> Indexer option" where
  "set_string_attribute n v i =
     (if n = ''additionalParameters'' then Some (i\<lparr>AdditionalParameters := v\<rparr>)
      else if n = ''apiKey'' then Some (i\<lparr>APIKey := v\<rparr>)
      else if n = ''apiPath'' then Some (i\<lparr>APIPath := v\<rparr>)
      else if n = ''baseUrl'' then Some (i\<lparr>BaseURL := v\<rparr>)
      else if n = ''captchaToken'' then Some (i\<lparr>CaptchaToken := v\<rparr>)
      else if n = ''cookie'' then Some (i\<lparr>Cookie := v\<rparr>)
      else if n = ''passkey'' then Some (i\<lparr>Passkey := v\<rparr>)
      else if n = ''username'' then Some (i\<lparr>Username := v\<rparr>)
      else None)"

definition set_attribute :: "string \<Rightarrow> Indexer \<Rightarrow> int64 list tfvalue option" where
  "set_attribute n i =
     (if n = ''categories'' then Some (Categories i)
      else if n = ''animeCategories'' then Some (AnimeCategories i)
      else None)"

definition set_set_attribute ::
  "string \<Rightarrow> int64 list tfvalue \<Rightarrow> Indexer \<Rightarrow> Indexer option" where
  "set_set_attribute n v i =
     (if n = ''categories'' then Some (i\<lparr>Categories := v\<rparr>)
      else if n = ''animeCategories'' then Some (i\<lparr>AnimeCategories := v\<rparr>)
      else None)"

text \<open>
  Modelled from the spec: the helpers of the inbound direction in \<^verbatim>\<open>internal/helpers\<close>. A
  helper returns no error: it sets the attribute bound to the entry's name as present with
  the coerced value, or it panics, which a value of another type than the declared one makes
  it do.
\<close>

datatype panic = TypeMismatch string | NoSuchAttribute string

definition assign :: "string \<Rightarrow> Indexer option \<Rightarrow> panic + Indexer" where
  "assign n r = (case r of None \<Rightarrow> Inl (NoSuchAttribute n) | Some output \<Rightarrow> Inr output)"

definition WriteStringField :: "FieldEntry \<Rightarrow> Indexer \<Rightarrow> panic + Indexer" where
  "WriteStringField f output =
     (case Field_Value f of
        StringValue s \<Rightarrow> assign (Field_Name f) (set_string_attribute (Field_Name f) (Known s) output)
      | _ \<Rightarrow> Inl (TypeMismatch (Field_Name f)))"

definition WriteBoolField :: "FieldEntry \<Rightarrow> Indexer \<Rightarrow> panic + Indexer" where
  "WriteBoolField f output =
     (case Field_Value f of
        BoolValue b \<Rightarrow> assign (Field_Name f) (set_bool_attribute (Field_Name f) (Known b) output)
      | _ \<Rightarrow> Inl (TypeMismatch (Field_Name f)))"

text \<open>An integer is narrowed to the 64 bits of the attribute.\<close>

definition WriteIntField :: "FieldEntry \<Rightarrow> Indexer \<Rightarrow> panic + Indexer" where
  "WriteIntField f output =
     (case Field_Value f of
        IntValue v \<Rightarrow>
          assign (Field_Name f) (set_int_attribute (Field_Name f) (Known (word_of_int v)) output)
      | _ \<Rightarrow> Inl (TypeMismatch (Field_Name f)))"

definition WriteFloatField :: "FieldEntry \<Rightarrow> Indexer \<Rightarrow> panic + Indexer" where
  "WriteFloatField f output =
     (case Field_Value f of
        FloatValue x \<Rightarrow> assign (Field_Name f) (set_float_attribute (Field_Name f) (Known x) output)
      | _ \<Rightarrow> Inl (TypeMismatch (Field_Name f)))"

definition WriteIntSliceField :: "FieldEntry \<Rightarrow> Indexer \<Rightarrow> panic + Indexer" where
  "WriteIntSliceField f output =
     (case Field_Value f of
        IntListValue vs \<Rightarrow>
          assign (Field_Name f)
            (set_set_attribute (Field_Name f) (Known (map word_of_int vs)) output)
      | _ \<Rightarrow> Inl (TypeMismatch (Field_Name f)))"

text \<open>
  Modelled from the spec: the helpers of the outbound direction in \<^verbatim>\<open>internal/helpers\<close>. A
  helper returns a pointer to the entry with the field's name and the attribute's value, or
  \<^verbatim>\<open>nil\<close> for an attribute that is unset, that is null or unknown.
\<close>

definition ReadBoolField :: "string \<Rightarrow> Indexer \<Rightarrow> FieldEntry option" where
  "ReadBoolField n indexer =
     (case bool_attribute n indexer of
        Some (Known b) \<Rightarrow> Some \<lparr>Field_Name = n, Field_Value = BoolValue b\<rparr>
      | _ \<Rightarrow> None)"

definition ReadIntField :: "string \<Rightarrow> Indexer \<Rightarrow> FieldEntry option" where
  "ReadIntField n indexer =
     (case int_attribute n indexer of
        Some (Known w) \<Rightarrow> Some \<lparr>Field_Name = n, Field_Value = IntValue (sint w)\<rparr>
      | _ \<Rightarrow> None)"

definition ReadFloatField :: "string \<Rightarrow> Indexer \<Rightarrow> FieldEntry option" where
  "ReadFloatField n indexer =
     (case float_attribute n indexer of
        Some (Known x) \<Rightarrow> Some \<lparr>Field_Name = n, Field_Value = FloatValue x\<rparr>
      | _ \<Rightarrow> None)"

definition ReadStringField :: "string \<Rightarrow> Indexer \<Rightarrow> FieldEntry option" where
  "ReadStringField n indexer =
     (case string_attribute n indexer of
        Some (Known s) \<Rightarrow> Some \<lparr>Field_Name = n, Field_Value = StringValue s\<rparr>
      | _ \<Rightarrow> None)"

definition ReadIntSliceField :: "string \<Rightarrow> Indexer \<Rightarrow> FieldEntry option" where
  "ReadIntSliceField n indexer =
     (case set_attribute n indexer of
        Some (Known ws) \<Rightarrow> Some \<lparr>Field_Name = n, Field_Value = IntListValue (map sint ws)\<rparr>
      | _ \<Rightarrow> None)"

subsection \<open>The inbound direction: the field loop of \<^verbatim>\<open>writeIndexer\<close>\<close>

text \<open>
  The body of the loop, for one entry \<open>f\<close> and the record \<open>output\<close> built so far. An
  entry without a value is skipped first; the partitions are then tried in the order
  strings, booleans, integers, floats, integer lists; an entry of no partition is passed
  over.
\<close>

definition writeIndexer_field :: "FieldEntry \<Rightarrow> Indexer \<Rightarrow> panic + Indexer" where
  "writeIndexer_field f output =
     (if Field_Value f = Absent then Inr output
      else if Field_Name f \<in> set indexerStringFields then WriteStringField f output
      else if Field_Name f \<in> set indexerBoolFields then WriteBoolField f output
      else if Field_Name f \<in> set indexerIntFields then WriteIntField f output
      else if Field_Name f \<in> set indexerFloatFields then WriteFloatField f output
      else if Field_Name f \<in> set indexerIntSliceFields then WriteIntSliceField f output
      else Inr output)"

text \<open>The loop over \<^verbatim>\<open>indexer.Fields\<close>; a panic ends it.\<close>

fun writeIndexer_fields :: "FieldEntry list \<Rightarrow> Indexer \<Rightarrow> panic + Indexer" where
  "writeIndexer_fields [] output = Inr output"
| "writeIndexer_fields (f # fs) output =
     (case writeIndexer_field f output of
        Inl p \<Rightarrow> Inl p
      | Inr output' \<Rightarrow> writeIndexer_fields fs output')"

subsection \<open>The whole of \<^verbatim>\<open>writeIndexer\<close>\<close>

text \<open>\<^verbatim>\<open>sonarr.IndexerOutput\<close>, the response of the server, as far as \<^verbatim>\<open>writeIndexer\<close> reads it.\<close>

record IndexerOutput =
  Output_EnableAutomaticSearch :: bool
  Output_EnableInteractiveSearch :: bool
  Output_EnableRss :: bool
  Output_Priority :: int64
  Output_DownloadClientID :: int64
  Output_ID :: int64
  Output_ConfigContract :: string
  Output_Implementation :: string
  Output_Name :: string
  Output_Protocol :: string
  Output_Tags :: "int64 list"
  Output_Fields :: "FieldEntry list"

text \<open>
  The struct literal with which \<^verbatim>\<open>writeIndexer\<close> begins. A composite literal
  \<^verbatim>\<open>types.Bool{Value: b}\<close> names the one field \<^verbatim>\<open>Value\<close> of the wrapper and leaves its other
  fields at their zero value: it is how the source writes the known value \<open>b\<close>. An
  attribute that the literal of \<^verbatim>\<open>Indexer\<close> leaves out has every field of its wrapper at the
  zero value, and so is the same value as \<^verbatim>\<open>types.X{Value: zero}\<close>: known, with false, 0,
  0.0 or the empty string. \<^verbatim>\<open>types.Set{ElemType: types.Int64Type}\<close> likewise has no flag set
  and no element: it is known and empty. The sixteen scalar field-backed attributes are left
  out of the literal, and the two sets are written in this form.
\<close>

definition writeIndexer_literal :: "IndexerOutput \<Rightarrow> Indexer" where
  "writeIndexer_literal indexer =
     \<lparr>Tags = Known [],
      Categories = Known [],
      AnimeCategories = Known [],
      APIPath = Known [],
      AdditionalParameters = Known [],
      Username = Known [],
      ConfigContract = Known (Output_ConfigContract indexer),
      Implementation = Known (Output_Implementation indexer),
      Name = Known (Output_Name indexer),
      Protocol = Known (Output_Protocol indexer),
      Passkey = Known [],
      Cookie = Known [],
      CaptchaToken = Known [],
      BaseURL = Known [],
      APIKey = Known [],
      Priority = Known (Output_Priority indexer),
      DownloadClientID = Known (Output_DownloadClientID indexer),
      SeedTime = Known 0,
      SeedRatio = Known 0,
      MinimumSeeders = Known 0,
      Delay = Known 0,
      ID = Known (Output_ID indexer),
      SeasonPackSeedTime = Known 0,
      AnimeStandardFormatSearch = Known False,
      AllowZeroSize = Known False,
      RankedOnly = Known False,
      EnableAutomaticSearch = Known (Output_EnableAutomaticSearch indexer),
      EnableRss = Known (Output_EnableRss indexer),
      EnableInteractiveSearch = Known (Output_EnableInteractiveSearch indexer)\<rparr>"

text \<open>
  \<^verbatim>\<open>writeIndexer\<close>: the literal, the conversion of the tags, the field loop. The conversion
  \<^verbatim>\<open>tfsdk.ValueFrom\<close> is a function of the framework and a parameter here: it is given the
  slice of tags and the set it is to overwrite, and its diagnostics are dropped by the
  source. It touches the attribute \<^verbatim>\<open>Tags\<close> only.
\<close>

definition writeIndexer ::
  "(int64 list \<Rightarrow> int64 list tfvalue \<Rightarrow> int64 list tfvalue) \<Rightarrow> IndexerOutput
    \<Rightarrow> panic + Indexer" where
  "writeIndexer ValueFrom indexer =
     (let output = writeIndexer_literal indexer;
          output = output\<lparr>Tags := ValueFrom (Output_Tags indexer) (Tags output)\<rparr>
      in writeIndexer_fields (Output_Fields indexer) output)"

subsection \<open>The outbound direction: \<^verbatim>\<open>readIndexerFields\<close>\<close>

text \<open>
  One of the five range statements: for each name of a partition, in its order, the entry
  the helper returns is appended to the output unless it is \<^verbatim>\<open>nil\<close>.
\<close>

fun appendFields ::
  "(string \<Rightarrow> Indexer \<Rightarrow> FieldEntry option) \<Rightarrow> string list \<Rightarrow> Indexer
    \<Rightarrow> FieldEntry list \<Rightarrow> FieldEntry list" where
  "appendFields read [] indexer output = output"
| "appendFields read (n # ns) indexer output =
     appendFields read ns indexer
       (case read n indexer of None \<Rightarrow> output | Some field \<Rightarrow> output @ [field])"

definition readIndexerFields :: "Indexer \<Rightarrow> FieldEntry list" where
  "readIndexerFields indexer =
     (let output = [];
          output = appendFields ReadBoolField indexerBoolFields indexer output;
          output = appendFields ReadIntField indexerIntFields indexer output;
          output = appendFields ReadFloatField indexerFloatFields indexer output;
          output = appendFields ReadStringField indexerStringFields indexer output;
          output = appendFields ReadIntSliceField indexerIntSliceFields indexer output
      in output)"


subsection \<open>Field-backed attributes by name\<close>

text \<open>
  The attribute bound to a field name, whatever its type, and its state. An attribute is
  unset when it is null or unknown and present otherwise; a present list may be empty.
\<close>

datatype attribute =
    BoolAttribute "bool tfvalue"
  | Int64Attribute "int64 tfvalue"
  | Float64Attribute "float64 tfvalue"
  | StringAttribute "string tfvalue"
  | SetAttribute "int64 list tfvalue"

definition attribute_of :: "string \<Rightarrow> Indexer \<Rightarrow> attribute option" where
  "attribute_of a T =
     (case bool_attribute a T of Some v \<Rightarrow> Some (BoolAttribute v) | None \<Rightarrow>
      (case int_attribute a T of Some v \<Rightarrow> Some (Int64Attribute v) | None \<Rightarrow>
       (case float_attribute a T of Some v \<Rightarrow> Some (Float64Attribute v) | None \<Rightarrow>
        (case string_attribute a T of Some v \<Rightarrow> Some (StringAttribute v) | None \<Rightarrow>
         (case set_attribute a T of Some v \<Rightarrow> Some (SetAttribute v) | None \<Rightarrow> None)))))"

text \<open>
  The wire representation of a present attribute: a boolean, a float and a string as they
  are, an integer of 64 bits as the integer it denotes, a list flattened to the list of its
  elements. An unset attribute has none.
\<close>

fun wire :: "attribute \<Rightarrow> field_value" where
  "wire (BoolAttribute (Known b)) = BoolValue b"
| "wire (Int64Attribute (Known w)) = IntValue (sint w)"
| "wire (Float64Attribute (Known x)) = FloatValue x"
| "wire (StringAttribute (Known s)) = StringValue s"
| "wire (SetAttribute (Known ws)) = IntListValue (map sint ws)"
| "wire _ = Absent"

text \<open>The states of an attribute: unset when its wrapper is null or unknown.\<close>

fun unset_attribute :: "attribute \<Rightarrow> bool" where
  "unset_attribute (BoolAttribute v) = (IsNull v \<or> IsUnknown v)"
| "unset_attribute (Int64Attribute v) = (IsNull v \<or> IsUnknown v)"
| "unset_attribute (Float64Attribute v) = (IsNull v \<or> IsUnknown v)"
| "unset_attribute (StringAttribute v) = (IsNull v \<or> IsUnknown v)"
| "unset_attribute (SetAttribute v) = (IsNull v \<or> IsUnknown v)"

definition unset :: "string \<Rightarrow> Indexer \<Rightarrow> bool" where
  "unset a T = (case attribute_of a T of None \<Rightarrow> False | Some x \<Rightarrow> unset_attribute x)"

definition present :: "string \<Rightarrow> Indexer \<Rightarrow> bool" where
  "present a T = (case attribute_of a T of None \<Rightarrow> False | Some x \<Rightarrow> \<not> unset_attribute x)"

text \<open>
  The entry that stands for the attribute bound to a name: none for an unset attribute and
  for a name that backs no attribute, else the name with the attribute's wire value.
\<close>

definition entry_of :: "string \<Rightarrow> Indexer \<Rightarrow> FieldEntry option" where
  "entry_of a T =
     (case attribute_of a T of
        None \<Rightarrow> None
      | Some x \<Rightarrow> if wire x = Absent then None else Some \<lparr>Field_Name = a, Field_Value = wire x\<rparr>)"

text \<open>The names in the order in which \<^verbatim>\<open>readIndexerFields\<close> goes through the partitions.\<close>

definition indexerFieldOrder :: "string list" where
  "indexerFieldOrder =
     indexerBoolFields @ indexerIntFields @ indexerFloatFields @ indexerStringFields
       @ indexerIntSliceFields"

text \<open>
  The declared type of a partition, and the type of a value. A name is looked up in the
  partitions in the order of the loop of \<^verbatim>\<open>writeIndexer\<close>.
\<close>

datatype kind = BoolKind | IntKind | FloatKind | StringKind | IntListKind | StringListKind

fun kind_of :: "field_value \<Rightarrow> kind option" where
  "kind_of Absent = None"
| "kind_of (BoolValue _) = Some BoolKind"
| "kind_of (IntValue _) = Some IntKind"
| "kind_of (FloatValue _) = Some FloatKind"
| "kind_of (StringValue _) = Some StringKind"
| "kind_of (IntListValue _) = Some IntListKind"
| "kind_of (StringListValue _) = Some StringListKind"

definition declared_kind :: "string \<Rightarrow> kind option" where
  "declared_kind a =
     (if a \<in> set indexerStringFields then Some StringKind
      else if a \<in> set indexerBoolFields then Some BoolKind
      else if a \<in> set indexerIntFields then Some IntKind
      else if a \<in> set indexerFloatFields then Some FloatKind
      else if a \<in> set indexerIntSliceFields then Some IntListKind
      else None)"

text \<open>
  The values within the representable range of their type: the integers of 64 bits.
  \<open>narrowed\<close> is the value read back after it was narrowed to the attribute's type.
\<close>

definition in_int64 :: "int \<Rightarrow> bool" where
  "in_int64 v = (- (2 ^ 63) \<le> v \<and> v < 2 ^ 63)"

fun representable :: "field_value \<Rightarrow> bool" where
  "representable (IntValue v) = in_int64 v"
| "representable (IntListValue vs) = list_all in_int64 vs"
| "representable _ = True"

fun narrowed :: "field_value \<Rightarrow> field_value" where
  "narrowed (IntValue v) = IntValue (sint (word_of_int v :: int64))"
| "narrowed (IntListValue vs) = IntListValue (map (\<lambda>v. sint (word_of_int v :: int64)) vs)"
| "narrowed v = v"

text \<open>
  The wire value of the state in which the struct literal of \<^verbatim>\<open>writeIndexer\<close> leaves an
  attribute of each type, and the entry that stands for a field in that state.
\<close>

fun zero_value :: "kind \<Rightarrow> field_value" where
  "zero_value BoolKind = BoolValue False"
| "zero_value IntKind = IntValue 0"
| "zero_value FloatKind = FloatValue 0"
| "zero_value StringKind = StringValue []"
| "zero_value IntListKind = IntListValue []"
| "zero_value StringListKind = StringListValue []"

definition zero_entry :: "string \<Rightarrow> FieldEntry" where
  "zero_entry a =
     \<lparr>Field_Name = a,
      Field_Value = (case declared_kind a of None \<Rightarrow> Absent | Some k \<Rightarrow> zero_value k)\<rparr>"

text \<open>
  The lists of entries of the round trip: every name is of a partition, every value is
  present, of the declared type of its partition and within the range of that type, and no
  name occurs twice.
\<close>

definition round_trip_input :: "FieldEntry list \<Rightarrow> bool" where
  "round_trip_input L \<longleftrightarrow>
     list_all (\<lambda>f. Field_Name f \<in> set indexerFieldOrder \<and> Field_Value f \<noteq> Absent
                  \<and> declared_kind (Field_Name f) = kind_of (Field_Value f)
                  \<and> representable (Field_Value f)) L
     \<and> distinct (map Field_Name L)"

text \<open>
  What translating a present entry of the declared type does to the record: the attribute
  bound to the entry's name is present with the entry's value, and no other changes.
\<close>

definition sets_attribute :: "FieldEntry \<Rightarrow> Indexer \<Rightarrow> Indexer \<Rightarrow> bool" where
  "sets_attribute f output output' \<longleftrightarrow>
     (\<exists>x. wire x = narrowed (Field_Value f)
        \<and> (\<forall>m. attribute_of m output' = (if m = Field_Name f then Some x else attribute_of m output)))"

text \<open>
  Concrete inputs on which the marshaler is evaluated: a record with no attribute set, a
  list of entries with one entry of each partition, and below the record the field loop
  makes of that list when it is begun on that record.
\<close>

definition null_Indexer :: Indexer where
  "null_Indexer =
     \<lparr>Tags = Null, Categories = Null, AnimeCategories = Null, APIPath = Null,
      AdditionalParameters = Null, Username = Null, ConfigContract = Null,
      Implementation = Null, Name = Null, Protocol = Null, Passkey = Null, Cookie = Null,
      CaptchaToken = Null, BaseURL = Null, APIKey = Null, Priority = Null,
      DownloadClientID = Null, SeedTime = Null, SeedRatio = Null, MinimumSeeders = Null,
      Delay = Null, ID = Null, SeasonPackSeedTime = Null, AnimeStandardFormatSearch = Null,
      AllowZeroSize = Null, RankedOnly = Null, EnableAutomaticSearch = Null, EnableRss = Null,
      EnableInteractiveSearch = Null\<rparr>"

definition sample_fields :: "FieldEntry list" where
  "sample_fields =
     [\<lparr>Field_Name = ''apiKey'', Field_Value = StringValue ''k''\<rparr>,
      \<lparr>Field_Name = ''delay'', Field_Value = IntValue 5\<rparr>,
      \<lparr>Field_Name = ''categories'', Field_Value = IntListValue []\<rparr>,
      \<lparr>Field_Name = ''allowZeroSize'', Field_Value = BoolValue True\<rparr>,
      \<lparr>Field_Name = ''seedRatio'', Field_Value = FloatValue 0x3FF8000000000000\<rparr>]"

text \<open>
  A response of the server with given fields, and a conversion of the tags, on which
  \<^verbatim>\<open>writeIndexer\<close> is evaluated; what is proved of \<^verbatim>\<open>writeIndexer\<close> holds for every response
  and every conversion.
\<close>

definition response_with :: "FieldEntry list \<Rightarrow> IndexerOutput" where
  "response_with L =
     \<lparr>Output_EnableAutomaticSearch = True, Output_EnableInteractiveSearch = True,
      Output_EnableRss = True, Output_Priority = 25, Output_DownloadClientID = 0,
      Output_ID = 1, Output_ConfigContract = ''NewznabSettings'',
      Output_Implementation = ''Newznab'', Output_Name = ''n'', Output_Protocol = ''usenet'',
      Output_Tags = [], Output_Fields = L\<rparr>"

definition ValueFrom_known :: "int64 list \<Rightarrow> int64 list tfvalue \<Rightarrow> int64 list tfvalue" where
  "ValueFrom_known tags target = Known tags"

definition frame_fields :: "FieldEntry list" where
  "frame_fields =
     [\<lparr>Field_Name = ''apiKey'', Field_Value = Absent\<rparr>,
      \<lparr>Field_Name = ''delay'', Field_Value = IntValue 5\<rparr>]"

definition sample_Indexer :: Indexer where
  "sample_Indexer =
     null_Indexer\<lparr>APIKey := Known ''k'', Delay := Known 5, Categories := Known [],
       AllowZeroSize := Known True, SeedRatio := Known 0x3FF8000000000000\<rparr>"

text \<open>
  The records \<^verbatim>\<open>writeIndexer\<close> returns on the responses with the fields \<open>sample_fields\<close> and
  \<open>frame_fields\<close>: the struct literal, with the attributes of the entries that carry a value.
\<close>

definition sample_written :: Indexer where
  "sample_written =
     (writeIndexer_literal (response_with sample_fields))
       \<lparr>APIKey := Known ''k'', Delay := Known 5, Categories := Known [],
        AllowZeroSize := Known True, SeedRatio := Known 0x3FF8000000000000\<rparr>"

definition frame_written :: Indexer where
  "frame_written = (writeIndexer_literal (response_with frame_fields))\<lparr>Delay := Known 5\<rparr>"

section \<open>Properties of the language table\<close>

lemma findLanguageID_absent:
  "language \<notin> Value_Name ` set ls \<Longrightarrow> findLanguageID ls language = 0"
  by (induction ls) auto

lemma findLanguageID_present:
  "distinct (map Value_Name ls) \<Longrightarrow> l \<in> set ls \<Longrightarrow> findLanguageID ls (Value_Name l) = Value_ID l"
  by (induction ls) (auto simp: image_iff)

lemma languages_names:
  "map Value_Name languages =
    [''Unknown'', ''English'', ''French'', ''Spanish'', ''German'', ''Italian'', ''Danish'',
     ''Dutch'', ''Japanese'', ''Icelandic'', ''Chinese'', ''Russian'', ''Polish'',
     ''Vietnamese'', ''Swedish'', ''Norwegian'', ''Finnish'', ''Turkish'', ''Portuguese'',
     ''Flemish'', ''Greek'', ''Korean'', ''Hungarian'', ''Hebrew'', ''Lithuanian'', ''Czech'',
     ''Arabic'', ''Hindi'', ''Bulgarian'']"
  by (simp add: languages_def)

lemma languages_distinct: "distinct (map Value_Name languages)"
  unfolding languages_names by simp

lemma languages_ids: "map Value_ID languages = map word_of_nat [0..<29]"
  by (simp add: languages_def upt_rec)

text \<open>
  C10. \<^verbatim>\<open>getLanguageID\<close> is total: the table has 29 entries, every name of the table is mapped
  to the identifier beside it (1 for English, 28 for Bulgarian), and every other string is
  mapped to 0, the identifier of Unknown. \<^verbatim>\<open>readLanguageProfile\<close> therefore always returns a
  profile, in which the cutoff and every language carry the identifier \<^verbatim>\<open>getLanguageID\<close> gives
  their name (0 when the name is not in the table) and every language is marked allowed.
\<close>

theorem getLanguageID_total_default:
  "length languages = 29
   \<and> (\<forall>l \<in> set languages. getLanguageID (Value_Name l) = Value_ID l)
   \<and> getLanguageID ''English'' = 1 \<and> getLanguageID ''Bulgarian'' = 28
   \<and> getLanguageID ''Unknown'' = 0
   \<and> (language \<notin> Value_Name ` set languages \<longrightarrow> getLanguageID language = 0)
   \<and> Value_ID (Cutoff (readLanguageProfile profile))
       = getLanguageID (ValueString (LP_CutoffLanguage profile))
   \<and> (ValueString (LP_CutoffLanguage profile) \<notin> Value_Name ` set languages
        \<longrightarrow> Value_ID (Cutoff (readLanguageProfile profile)) = 0)
   \<and> length (Languages (readLanguageProfile profile)) = length (LP_Languages profile)
   \<and> (\<forall>i < length (LP_Languages profile).
        Allowed (Languages (readLanguageProfile profile) ! i)
      \<and> Value_Name (Language (Languages (readLanguageProfile profile) ! i))
          = ValueString (LP_Languages profile ! i)
      \<and> Value_ID (Language (Languages (readLanguageProfile profile) ! i))
          = getLanguageID (ValueString (LP_Languages profile ! i))
      \<and> (ValueString (LP_Languages profile ! i) \<notin> Value_Name ` set languages
           \<longrightarrow> Value_ID (Language (Languages (readLanguageProfile profile) ! i)) = 0))"
proof -
  have len: "length languages = 29"
    by (simp add: languages_def)
  have tab: "\<forall>l \<in> set languages. getLanguageID (Value_Name l) = Value_ID l"
    unfolding getLanguageID_def using findLanguageID_present [OF languages_distinct] by blast
  have en: "getLanguageID ''English'' = 1"
    by (simp add: getLanguageID_def languages_def)
  have bg: "getLanguageID ''Bulgarian'' = 28"
    by (simp add: getLanguageID_def languages_def)
  have un: "getLanguageID ''Unknown'' = 0"
    by (simp add: getLanguageID_def languages_def)
  have dflt: "\<And>s. s \<notin> Value_Name ` set languages \<Longrightarrow> getLanguageID s = 0"
    unfolding getLanguageID_def by (rule findLanguageID_absent)
  have cut: "Value_ID (Cutoff (readLanguageProfile profile))
       = getLanguageID (ValueString (LP_CutoffLanguage profile))"
    by (simp add: readLanguageProfile_def)
  have lens: "length (Languages (readLanguageProfile profile)) = length (LP_Languages profile)"
    by (simp add: readLanguageProfile_def)
  have elems: "\<forall>i < length (LP_Languages profile).
        Allowed (Languages (readLanguageProfile profile) ! i)
      \<and> Value_Name (Language (Languages (readLanguageProfile profile) ! i))
          = ValueString (LP_Languages profile ! i)
      \<and> Value_ID (Language (Languages (readLanguageProfile profile) ! i))
          = getLanguageID (ValueString (LP_Languages profile ! i))"
    by (simp add: readLanguageProfile_def readLanguage_def)
  show ?thesis
    using len tab en bg un dflt cut lens elems by metis
qed

theorem getLanguageID_total_default_witness:
  "getLanguageID (Value_Name (languages ! 5)) = 5
   \<and> getLanguageID ''english'' = 0
   \<and> Cutoff (readLanguageProfile
       \<lparr>LP_UpgradeAllowed = Known True, LP_ID = Known 7, LP_Name = Known ''p'',
        LP_CutoffLanguage = Known [], LP_Languages = [Known ''French'', Known ''Klingon'']\<rparr>)
     = \<lparr>Value_ID = 0, Value_Name = []\<rparr>
   \<and> Languages (readLanguageProfile
       \<lparr>LP_UpgradeAllowed = Known True, LP_ID = Known 7, LP_Name = Known ''p'',
        LP_CutoffLanguage = Known [], LP_Languages = [Known ''French'', Known ''Klingon'']\<rparr>) ! 1
     = \<lparr>Allowed = True, Language = \<lparr>Value_ID = 0, Value_Name = ''Klingon''\<rparr>\<rparr>"
proof -
  let ?p = "\<lparr>LP_UpgradeAllowed = Known True, LP_ID = Known 7, LP_Name = Known ''p'',
        LP_CutoffLanguage = Known [], LP_Languages = [Known ''French'', Known ''Klingon'']\<rparr>"
  note inst = getLanguageID_total_default [of "''english''" ?p]
  have mem: "languages ! 5 \<in> set languages"
    by (simp add: languages_def)
  have a: "getLanguageID (Value_Name (languages ! 5)) = 5"
    using inst mem by (simp add: languages_def)
  have n1: "[] \<notin> Value_Name ` set languages"
    unfolding set_map [symmetric] languages_names by simp
  have n2: "''english'' \<notin> Value_Name ` set languages"
    unfolding set_map [symmetric] languages_names by simp
  have n3: "''Klingon'' \<notin> Value_Name ` set languages"
    unfolding set_map [symmetric] languages_names by simp
  have b: "getLanguageID ''english'' = 0"
    using inst n2 by blast
  have "ValueString (LP_CutoffLanguage ?p) \<notin> Value_Name ` set languages
      \<longrightarrow> Value_ID (Cutoff (readLanguageProfile ?p)) = 0"
    using inst by blast
  then have c: "Value_ID (Cutoff (readLanguageProfile ?p)) = 0"
    using n1 by simp
  have "1 < length (LP_Languages ?p) \<longrightarrow>
      Allowed (Languages (readLanguageProfile ?p) ! 1)
      \<and> (ValueString (LP_Languages ?p ! 1) \<notin> Value_Name ` set languages
           \<longrightarrow> Value_ID (Language (Languages (readLanguageProfile ?p) ! 1)) = 0)"
    using inst by blast
  then have d: "Value_ID (Language (Languages (readLanguageProfile ?p) ! 1)) = 0
      \<and> Allowed (Languages (readLanguageProfile ?p) ! 1)"
    using n3 by simp
  have cf: "Cutoff (readLanguageProfile ?p) = \<lparr>Value_ID = 0, Value_Name = []\<rparr>"
    using c by (simp add: readLanguageProfile_def)
  have l1: "Languages (readLanguageProfile ?p) ! 1
      = \<lparr>Allowed = True, Language = \<lparr>Value_ID = 0, Value_Name = ''Klingon''\<rparr>\<rparr>"
    using d by (simp add: readLanguageProfile_def readLanguage_def)
  show ?thesis
    using a b cf l1 by simp
qed


section \<open>Properties of the provider configuration\<close>

lemma HasError_Append: "HasError (Append ds new) \<longleftrightarrow> HasError ds \<or> HasError new"
  by (induction new arbitrary: ds) (auto simp: HasError_def list_ex_iff)

lemma Append_single: "Append ds [d] = (if d \<in> set ds then ds else ds @ [d])"
  by simp

lemma set_Append: "set (Append ds new) = set ds \<union> set new"
  by (induction new arbitrary: ds) auto

lemma Append_prefix: "\<exists>added. Append ds new = ds @ added \<and> set added \<subseteq> set new"
proof (induction new arbitrary: ds)
  case Nil
  then show ?case by simp
next
  case (Cons d new)
  from Cons [of "if d \<in> set ds then ds else ds @ [d]"]
  obtain added where "Append (if d \<in> set ds then ds else ds @ [d]) new
      = (if d \<in> set ds then ds else ds @ [d]) @ added" "set added \<subseteq> set new"
    by blast
  then show ?case
    by (cases "d \<in> set ds") auto
qed


lemma AddWarning_eq:
  "AddWarning s d ds =
     (if \<lparr>Severity = SeverityWarning, Summary = s, Detail = d, Path = None\<rparr> \<in> set ds then ds
      else ds @ [\<lparr>Severity = SeverityWarning, Summary = s, Detail = d, Path = None\<rparr>])"
  by (simp add: AddWarning_def)

lemma AddError_eq:
  "\<not> HasError ds \<Longrightarrow>
   AddError s d ds = ds @ [\<lparr>Severity = SeverityError, Summary = s, Detail = d, Path = None\<rparr>]"
  by (auto simp: AddError_def HasError_def list_ex_iff)

lemma HasError_AddWarning: "HasError (AddWarning s d ds) = HasError ds"
  by (simp add: AddWarning_def HasError_Append HasError_def)

lemma HasError_AddError: "HasError (AddError s d ds)"
proof -
  let ?e = "\<lparr>Severity = SeverityError, Summary = s, Detail = d, Path = None\<rparr>"
  have "?e \<in> set (AddError s d ds)"
    by (simp add: AddError_def)
  moreover have "Severity ?e = SeverityError"
    by simp
  ultimately show ?thesis
    unfolding HasError_def list_ex_iff by blast
qed

lemma AddWarning_prefix: "\<exists>added. AddWarning s d ds = ds @ added"
  using Append_prefix [of ds] by (auto simp: AddWarning_def simp del: Append.simps)

lemma AddError_prefix: "\<exists>added. AddError s d ds = ds @ added"
  using Append_prefix [of ds] by (auto simp: AddError_def simp del: Append.simps)

lemma Configure_unfold:
  "Configure env req resp0 =
    (if HasError (Append (Diagnostics resp0) (Config_Get_diags req)) then
       resp0\<lparr>Diagnostics := Append (Diagnostics resp0) (Config_Get_diags req)\<rparr>
     else if IsUnknown (Sonarr_URL (Config_Get_data req)) then
       resp0\<lparr>Diagnostics := AddWarning ''Unable to create client''
          ''Cannot use unknown value as url'' (Append (Diagnostics resp0) (Config_Get_diags req))\<rparr>
     else if resolved env ''SONARR_URL'' (Sonarr_URL (Config_Get_data req)) = [] then
       resp0\<lparr>Diagnostics := AddError ''Unable to find URL''
          ''URL cannot be an empty string'' (Append (Diagnostics resp0) (Config_Get_diags req))\<rparr>
     else if IsUnknown (Sonarr_APIKey (Config_Get_data req)) then
       resp0\<lparr>Diagnostics := AddWarning ''Unable to create client''
          ''Cannot use unknown value as api_key''
          (Append (Diagnostics resp0) (Config_Get_diags req))\<rparr>
     else if resolved env ''SONARR_API_KEY'' (Sonarr_APIKey (Config_Get_data req)) = [] then
       resp0\<lparr>Diagnostics := AddError ''Unable to find API key''
          ''API key cannot be an empty string''
          (Append (Diagnostics resp0) (Config_Get_diags req))\<rparr>
     else
       resp0\<lparr>Diagnostics := Append (Diagnostics resp0) (Config_Get_diags req),
         DataSourceData := Some
           \<lparr>Header_X_Api_Key = resolved env ''SONARR_API_KEY'' (Sonarr_APIKey (Config_Get_data req)),
            Servers_0_URL = resolved env ''SONARR_URL'' (Sonarr_URL (Config_Get_data req))\<rparr>,
         ResourceData := Some
           \<lparr>Header_X_Api_Key = resolved env ''SONARR_API_KEY'' (Sonarr_APIKey (Config_Get_data req)),
            Servers_0_URL = resolved env ''SONARR_URL'' (Sonarr_URL (Config_Get_data req))\<rparr>\<rparr>)"
  by (simp add: Configure_def Let_def resolved_def)

text \<open>
  C9. \<^verbatim>\<open>Configure\<close> adds the diagnostics of \<^verbatim>\<open>req.Config.Get\<close> to those of the response,
  each unless an equal one is already there, and stops when the result holds an error.
  Otherwise it looks at the url first and at the api_key second. An unknown attribute adds
  one warning and nothing else. An attribute that is not unknown is resolved: a null url
  from the environment variable \<^verbatim>\<open>SONARR_URL\<close>, a null api_key from \<^verbatim>\<open>SONARR_API_KEY\<close>, any
  other from its configured string; an empty resolved value adds one error and nothing
  else. The warning or error is added at the end of the diagnostics, unless an equal
  diagnostic is already among them. In each of these cases \<^verbatim>\<open>Configure\<close> returns with
  \<^verbatim>\<open>DataSourceData\<close> and \<^verbatim>\<open>ResourceData\<close> untouched. Only when both values are resolved and
  non-empty is the client built from them and stored in both.
\<close>

theorem Configure_resolution:
  "(HasError (Append (Diagnostics resp0) (Config_Get_diags req)) \<longrightarrow>
      Configure env req resp0
        = resp0\<lparr>Diagnostics := Append (Diagnostics resp0) (Config_Get_diags req)\<rparr>)
   \<and> (\<not> HasError (Append (Diagnostics resp0) (Config_Get_diags req)) \<longrightarrow>
      (IsUnknown (Sonarr_URL (Config_Get_data req)) \<longrightarrow>
         Configure env req resp0 = resp0\<lparr>Diagnostics :=
           (let D = Append (Diagnostics resp0) (Config_Get_diags req);
                w = \<lparr>Severity = SeverityWarning, Summary = ''Unable to create client'',
                      Detail = ''Cannot use unknown value as url'', Path = None\<rparr>
            in if w \<in> set D then D else D @ [w])\<rparr>
         \<and> \<not> HasError (Diagnostics (Configure env req resp0)))
    \<and> (\<not> IsUnknown (Sonarr_URL (Config_Get_data req))
        \<and> resolved env ''SONARR_URL'' (Sonarr_URL (Config_Get_data req)) = [] \<longrightarrow>
         Configure env req resp0 = resp0\<lparr>Diagnostics :=
           Append (Diagnostics resp0) (Config_Get_diags req)
           @ [\<lparr>Severity = SeverityError, Summary = ''Unable to find URL'',
                Detail = ''URL cannot be an empty string'', Path = None\<rparr>]\<rparr>)
    \<and> (\<not> IsUnknown (Sonarr_URL (Config_Get_data req))
        \<and> resolved env ''SONARR_URL'' (Sonarr_URL (Config_Get_data req)) \<noteq> []
        \<and> IsUnknown (Sonarr_APIKey (Config_Get_data req)) \<longrightarrow>
         Configure env req resp0 = resp0\<lparr>Diagnostics :=
           (let D = Append (Diagnostics resp0) (Config_Get_diags req);
                w = \<lparr>Severity = SeverityWarning, Summary = ''Unable to create client'',
                      Detail = ''Cannot use unknown value as api_key'', Path = None\<rparr>
            in if w \<in> set D then D else D @ [w])\<rparr>
         \<and> \<not> HasError (Diagnostics (Configure env req resp0)))
    \<and> (\<not> IsUnknown (Sonarr_URL (Config_Get_data req))
        \<and> resolved env ''SONARR_URL'' (Sonarr_URL (Config_Get_data req)) \<noteq> []
        \<and> \<not> IsUnknown (Sonarr_APIKey (Config_Get_data req))
        \<and> resolved env ''SONARR_API_KEY'' (Sonarr_APIKey (Config_Get_data req)) = [] \<longrightarrow>
         Configure env req resp0 = resp0\<lparr>Diagnostics :=
           Append (Diagnostics resp0) (Config_Get_diags req)
           @ [\<lparr>Severity = SeverityError, Summary = ''Unable to find API key'',
                Detail = ''API key cannot be an empty string'', Path = None\<rparr>]\<rparr>)
    \<and> (\<not> IsUnknown (Sonarr_URL (Config_Get_data req))
        \<and> resolved env ''SONARR_URL'' (Sonarr_URL (Config_Get_data req)) \<noteq> []
        \<and> \<not> IsUnknown (Sonarr_APIKey (Config_Get_data req))
        \<and> resolved env ''SONARR_API_KEY'' (Sonarr_APIKey (Config_Get_data req)) \<noteq> [] \<longrightarrow>
         Configure env req resp0 = resp0
           \<lparr>Diagnostics := Append (Diagnostics resp0) (Config_Get_diags req),
            DataSourceData := Some
              \<lparr>Header_X_Api_Key = resolved env ''SONARR_API_KEY'' (Sonarr_APIKey (Config_Get_data req)),
               Servers_0_URL = resolved env ''SONARR_URL'' (Sonarr_URL (Config_Get_data req))\<rparr>,
            ResourceData := Some
              \<lparr>Header_X_Api_Key = resolved env ''SONARR_API_KEY'' (Sonarr_APIKey (Config_Get_data req)),
               Servers_0_URL = resolved env ''SONARR_URL'' (Sonarr_URL (Config_Get_data req))\<rparr>\<rparr>))
   \<and> (DataSourceData (Configure env req resp0) \<noteq> DataSourceData resp0
        \<or> ResourceData (Configure env req resp0) \<noteq> ResourceData resp0 \<longrightarrow>
       \<not> HasError (Diagnostics (Configure env req resp0))
       \<and> \<not> IsUnknown (Sonarr_URL (Config_Get_data req))
       \<and> resolved env ''SONARR_URL'' (Sonarr_URL (Config_Get_data req)) \<noteq> []
       \<and> \<not> IsUnknown (Sonarr_APIKey (Config_Get_data req))
       \<and> resolved env ''SONARR_API_KEY'' (Sonarr_APIKey (Config_Get_data req)) \<noteq> [])
   \<and> (\<exists>added. Diagnostics (Configure env req resp0) = Diagnostics resp0 @ added)"
proof -
  let ?D = "Append (Diagnostics resp0) (Config_Get_diags req)"
  let ?R = "Configure env req resp0"
  let ?uu = "IsUnknown (Sonarr_URL (Config_Get_data req))"
  let ?uk = "IsUnknown (Sonarr_APIKey (Config_Get_data req))"
  let ?url = "resolved env ''SONARR_URL'' (Sonarr_URL (Config_Get_data req))"
  let ?key = "resolved env ''SONARR_API_KEY'' (Sonarr_APIKey (Config_Get_data req))"
  note U = Configure_unfold [of env req resp0]
  have c0: "HasError ?D \<longrightarrow> ?R = resp0\<lparr>Diagnostics := ?D\<rparr>"
    using U by simp
  have c1: "IsUnknown (Sonarr_URL (Config_Get_data req)) \<longrightarrow>
         Configure env req resp0 = resp0\<lparr>Diagnostics :=
           (let D = Append (Diagnostics resp0) (Config_Get_diags req);
                w = \<lparr>Severity = SeverityWarning, Summary = ''Unable to create client'',
                      Detail = ''Cannot use unknown value as url'', Path = None\<rparr>
            in if w \<in> set D then D else D @ [w])\<rparr>
         \<and> \<not> HasError (Diagnostics (Configure env req resp0))"
    if "\<not> HasError ?D"
  proof
    assume "?uu"
    with that U have R: "?R = resp0\<lparr>Diagnostics := AddWarning ''Unable to create client''
          ''Cannot use unknown value as url'' ?D\<rparr>"
      by simp
    show "Configure env req resp0 = resp0\<lparr>Diagnostics :=
           (let D = Append (Diagnostics resp0) (Config_Get_diags req);
                w = \<lparr>Severity = SeverityWarning, Summary = ''Unable to create client'',
                      Detail = ''Cannot use unknown value as url'', Path = None\<rparr>
            in if w \<in> set D then D else D @ [w])\<rparr>
         \<and> \<not> HasError (Diagnostics (Configure env req resp0))"
    proof (rule conjI)
      show "\<not> HasError (Diagnostics (Configure env req resp0))"
        using R that by (simp add: HasError_AddWarning)
      show "Configure env req resp0 = resp0\<lparr>Diagnostics :=
           (let D = Append (Diagnostics resp0) (Config_Get_diags req);
                w = \<lparr>Severity = SeverityWarning, Summary = ''Unable to create client'',
                      Detail = ''Cannot use unknown value as url'', Path = None\<rparr>
            in if w \<in> set D then D else D @ [w])\<rparr>"
        using R by (simp add: AddWarning_eq Let_def)
    qed
  qed
  have c2: "\<not> ?uu \<and> ?url = [] \<longrightarrow>
         ?R = resp0\<lparr>Diagnostics := ?D
           @ [\<lparr>Severity = SeverityError, Summary = ''Unable to find URL'',
                Detail = ''URL cannot be an empty string'', Path = None\<rparr>]\<rparr>"
    if "\<not> HasError ?D"
    using that U by (simp add: AddError_eq)
  have c3: "\<not> IsUnknown (Sonarr_URL (Config_Get_data req))
        \<and> resolved env ''SONARR_URL'' (Sonarr_URL (Config_Get_data req)) \<noteq> []
        \<and> IsUnknown (Sonarr_APIKey (Config_Get_data req)) \<longrightarrow>
         Configure env req resp0 = resp0\<lparr>Diagnostics :=
           (let D = Append (Diagnostics resp0) (Config_Get_diags req);
                w = \<lparr>Severity = SeverityWarning, Summary = ''Unable to create client'',
                      Detail = ''Cannot use unknown value as api_key'', Path = None\<rparr>
            in if w \<in> set D then D else D @ [w])\<rparr>
         \<and> \<not> HasError (Diagnostics (Configure env req resp0))"
    if "\<not> HasError ?D"
  proof
    assume "\<not> ?uu \<and> ?url \<noteq> [] \<and> ?uk"
    with that U have R: "?R = resp0\<lparr>Diagnostics := AddWarning ''Unable to create client''
          ''Cannot use unknown value as api_key'' ?D\<rparr>"
      by simp
    show "Configure env req resp0 = resp0\<lparr>Diagnostics :=
           (let D = Append (Diagnostics resp0) (Config_Get_diags req);
                w = \<lparr>Severity = SeverityWarning, Summary = ''Unable to create client'',
                      Detail = ''Cannot use unknown value as api_key'', Path = None\<rparr>
            in if w \<in> set D then D else D @ [w])\<rparr>
         \<and> \<not> HasError (Diagnostics (Configure env req resp0))"
    proof (rule conjI)
      show "\<not> HasError (Diagnostics (Configure env req resp0))"
        using R that by (simp add: HasError_AddWarning)
      show "Configure env req resp0 = resp0\<lparr>Diagnostics :=
           (let D = Append (Diagnostics resp0) (Config_Get_diags req);
                w = \<lparr>Severity = SeverityWarning, Summary = ''Unable to create client'',
                      Detail = ''Cannot use unknown value as api_key'', Path = None\<rparr>
            in if w \<in> set D then D else D @ [w])\<rparr>"
        using R by (simp add: AddWarning_eq Let_def)
    qed
  qed
  have c4: "\<not> ?uu \<and> ?url \<noteq> [] \<and> \<not> ?uk \<and> ?key = [] \<longrightarrow>
         ?R = resp0\<lparr>Diagnostics := ?D
           @ [\<lparr>Severity = SeverityError, Summary = ''Unable to find API key'',
                Detail = ''API key cannot be an empty string'', Path = None\<rparr>]\<rparr>"
    if "\<not> HasError ?D"
    using that U by (simp add: AddError_eq)
  have c5: "\<not> ?uu \<and> ?url \<noteq> [] \<and> \<not> ?uk \<and> ?key \<noteq> [] \<longrightarrow>
         ?R = resp0\<lparr>Diagnostics := ?D,
            DataSourceData := Some \<lparr>Header_X_Api_Key = ?key, Servers_0_URL = ?url\<rparr>,
            ResourceData := Some \<lparr>Header_X_Api_Key = ?key, Servers_0_URL = ?url\<rparr>\<rparr>"
    if "\<not> HasError ?D"
    using that U by simp
  have c6: "DataSourceData ?R \<noteq> DataSourceData resp0 \<or> ResourceData ?R \<noteq> ResourceData resp0 \<longrightarrow>
       \<not> HasError (Diagnostics ?R) \<and> \<not> ?uu \<and> ?url \<noteq> [] \<and> \<not> ?uk \<and> ?key \<noteq> []"
    unfolding U by (simp add: HasError_AddWarning HasError_AddError)
  obtain a0 where a0: "?D = Diagnostics resp0 @ a0"
    using Append_prefix [of "Diagnostics resp0" "Config_Get_diags req"] by blast
  obtain a1 where a1: "AddWarning ''Unable to create client''
      ''Cannot use unknown value as url'' ?D = ?D @ a1"
    using AddWarning_prefix by blast
  obtain a2 where a2: "AddError ''Unable to find URL'' ''URL cannot be an empty string'' ?D
      = ?D @ a2"
    using AddError_prefix by blast
  obtain a3 where a3: "AddWarning ''Unable to create client''
      ''Cannot use unknown value as api_key'' ?D = ?D @ a3"
    using AddWarning_prefix by blast
  obtain a4 where a4: "AddError ''Unable to find API key''
      ''API key cannot be an empty string'' ?D = ?D @ a4"
    using AddError_prefix by blast
  have c7: "\<exists>added. Diagnostics ?R = Diagnostics resp0 @ added"
    unfolding U a1 a2 a3 a4 unfolding a0 by simp
  from c0 c1 c2 c3 c4 c5 c6 c7 show ?thesis
    by blast
qed

theorem Configure_resolution_witness:
  "Configure [''SONARR_URL'' \<mapsto> ''http://s'']
     \<lparr>Config_Get_data = \<lparr>Sonarr_APIKey = Known ''k'', Sonarr_URL = Null\<rparr>, Config_Get_diags = []\<rparr>
     \<lparr>Diagnostics = [], DataSourceData = None, ResourceData = None\<rparr>
   = \<lparr>Diagnostics = [],
      DataSourceData = Some \<lparr>Header_X_Api_Key = ''k'', Servers_0_URL = ''http://s''\<rparr>,
      ResourceData = Some \<lparr>Header_X_Api_Key = ''k'', Servers_0_URL = ''http://s''\<rparr>\<rparr>
   \<and> Configure Map.empty
     \<lparr>Config_Get_data = \<lparr>Sonarr_APIKey = Known ''k'', Sonarr_URL = Null\<rparr>, Config_Get_diags = []\<rparr>
     \<lparr>Diagnostics = [], DataSourceData = None, ResourceData = None\<rparr>
   = \<lparr>Diagnostics = [\<lparr>Severity = SeverityError, Summary = ''Unable to find URL'',
                        Detail = ''URL cannot be an empty string'', Path = None\<rparr>],
      DataSourceData = None, ResourceData = None\<rparr>
   \<and> Configure Map.empty
     \<lparr>Config_Get_data = \<lparr>Sonarr_APIKey = Unknown, Sonarr_URL = Known ''http://s''\<rparr>,
      Config_Get_diags = []\<rparr>
     \<lparr>Diagnostics = [], DataSourceData = None, ResourceData = None\<rparr>
   = \<lparr>Diagnostics = [\<lparr>Severity = SeverityWarning, Summary = ''Unable to create client'',
                        Detail = ''Cannot use unknown value as api_key'', Path = None\<rparr>],
      DataSourceData = None, ResourceData = None\<rparr>
   \<and> Configure Map.empty
     \<lparr>Config_Get_data = \<lparr>Sonarr_APIKey = Known [], Sonarr_URL = Unknown\<rparr>,
      Config_Get_diags = []\<rparr>
     \<lparr>Diagnostics = [], DataSourceData = None, ResourceData = None\<rparr>
   = \<lparr>Diagnostics = [\<lparr>Severity = SeverityWarning, Summary = ''Unable to create client'',
                        Detail = ''Cannot use unknown value as url'', Path = None\<rparr>],
      DataSourceData = None, ResourceData = None\<rparr>
   \<and> Configure Map.empty
     \<lparr>Config_Get_data = \<lparr>Sonarr_APIKey = Known [], Sonarr_URL = Unknown\<rparr>,
      Config_Get_diags = []\<rparr>
     \<lparr>Diagnostics = [\<lparr>Severity = SeverityWarning, Summary = ''Unable to create client'',
                        Detail = ''Cannot use unknown value as url'', Path = None\<rparr>],
      DataSourceData = None, ResourceData = None\<rparr>
   = \<lparr>Diagnostics = [\<lparr>Severity = SeverityWarning, Summary = ''Unable to create client'',
                        Detail = ''Cannot use unknown value as url'', Path = None\<rparr>],
      DataSourceData = None, ResourceData = None\<rparr>
   \<and> Configure Map.empty
     \<lparr>Config_Get_data = \<lparr>Sonarr_APIKey = Null, Sonarr_URL = Known ''http://s''\<rparr>,
      Config_Get_diags = []\<rparr>
     \<lparr>Diagnostics = [], DataSourceData = None, ResourceData = None\<rparr>
   = \<lparr>Diagnostics = [\<lparr>Severity = SeverityError, Summary = ''Unable to find API key'',
                        Detail = ''API key cannot be an empty string'', Path = None\<rparr>],
      DataSourceData = None, ResourceData = None\<rparr>
   \<and> Configure [''SONARR_URL'' \<mapsto> ''http://s'']
     \<lparr>Config_Get_data = \<lparr>Sonarr_APIKey = Known ''k'', Sonarr_URL = Null\<rparr>,
      Config_Get_diags = [\<lparr>Severity = SeverityError, Summary = ''e'', Detail = ''d'',
                           Path = Some ''url''\<rparr>]\<rparr>
     \<lparr>Diagnostics = [], DataSourceData = None, ResourceData = None\<rparr>
   = \<lparr>Diagnostics = [\<lparr>Severity = SeverityError, Summary = ''e'', Detail = ''d'',
                        Path = Some ''url''\<rparr>],
      DataSourceData = None, ResourceData = None\<rparr>"
proof -
  let ?r0 = "\<lparr>Diagnostics = [], DataSourceData = None, ResourceData = None\<rparr>"
  let ?w = "\<lparr>Severity = SeverityWarning, Summary = ''Unable to create client'',
             Detail = ''Cannot use unknown value as url'', Path = None\<rparr>"
  let ?r1 = "\<lparr>Diagnostics = [?w], DataSourceData = None, ResourceData = None\<rparr>"
  let ?env = "[''SONARR_URL'' \<mapsto> ''http://s'']"
  let ?q1 = "\<lparr>Config_Get_data = \<lparr>Sonarr_APIKey = Known ''k'', Sonarr_URL = Null\<rparr>,
             Config_Get_diags = []\<rparr>"
  let ?q2 = "\<lparr>Config_Get_data = \<lparr>Sonarr_APIKey = Unknown, Sonarr_URL = Known ''http://s''\<rparr>,
             Config_Get_diags = []\<rparr>"
  let ?q3 = "\<lparr>Config_Get_data = \<lparr>Sonarr_APIKey = Known [], Sonarr_URL = Unknown\<rparr>,
             Config_Get_diags = []\<rparr>"
  let ?q4 = "\<lparr>Config_Get_data = \<lparr>Sonarr_APIKey = Null, Sonarr_URL = Known ''http://s''\<rparr>,
             Config_Get_diags = []\<rparr>"
  let ?q5 = "\<lparr>Config_Get_data = \<lparr>Sonarr_APIKey = Known ''k'', Sonarr_URL = Null\<rparr>,
             Config_Get_diags = [\<lparr>Severity = SeverityError, Summary = ''e'', Detail = ''d'',
                                  Path = Some ''url''\<rparr>]\<rparr>"
  have a: "Configure ?env ?q1 ?r0
      = \<lparr>Diagnostics = [],
         DataSourceData = Some \<lparr>Header_X_Api_Key = ''k'', Servers_0_URL = ''http://s''\<rparr>,
         ResourceData = Some \<lparr>Header_X_Api_Key = ''k'', Servers_0_URL = ''http://s''\<rparr>\<rparr>"
    using Configure_resolution [of ?r0 ?q1 ?env]
    by (simp add: resolved_def Getenv_def HasError_def)
  have b: "Configure Map.empty ?q1 ?r0
      = \<lparr>Diagnostics = [\<lparr>Severity = SeverityError, Summary = ''Unable to find URL'',
                           Detail = ''URL cannot be an empty string'', Path = None\<rparr>],
         DataSourceData = None, ResourceData = None\<rparr>"
    using Configure_resolution [of ?r0 ?q1 Map.empty]
    by (simp add: resolved_def Getenv_def HasError_def)
  have c: "Configure Map.empty ?q2 ?r0
      = \<lparr>Diagnostics = [\<lparr>Severity = SeverityWarning, Summary = ''Unable to create client'',
                           Detail = ''Cannot use unknown value as api_key'', Path = None\<rparr>],
         DataSourceData = None, ResourceData = None\<rparr>"
    using Configure_resolution [of ?r0 ?q2 Map.empty]
    by (simp add: resolved_def Getenv_def HasError_def)
  have d: "Configure Map.empty ?q3 ?r0 = ?r1"
    using Configure_resolution [of ?r0 ?q3 Map.empty]
    by (simp add: resolved_def Getenv_def HasError_def)
  have d': "Configure Map.empty ?q3 ?r1 = ?r1"
    using Configure_resolution [of ?r1 ?q3 Map.empty]
    by (simp add: resolved_def Getenv_def HasError_def)
  have e: "Configure Map.empty ?q4 ?r0
      = \<lparr>Diagnostics = [\<lparr>Severity = SeverityError, Summary = ''Unable to find API key'',
                           Detail = ''API key cannot be an empty string'', Path = None\<rparr>],
         DataSourceData = None, ResourceData = None\<rparr>"
    using Configure_resolution [of ?r0 ?q4 Map.empty]
    by (simp add: resolved_def Getenv_def HasError_def)
  have f: "Configure ?env ?q5 ?r0
      = \<lparr>Diagnostics = [\<lparr>Severity = SeverityError, Summary = ''e'', Detail = ''d'',
                           Path = Some ''url''\<rparr>],
         DataSourceData = None, ResourceData = None\<rparr>"
    using Configure_resolution [of ?r0 ?q5 ?env]
    by (simp add: HasError_def)
  show ?thesis
    using a b c d d' e f by simp
qed


section \<open>Properties of the field marshaler\<close>

subsection \<open>Attributes by name\<close>

lemma unset_attribute_wire: "unset_attribute x \<longleftrightarrow> wire x = Absent"
proof (cases x)
  case (BoolAttribute v)
  then show ?thesis by (cases v) simp_all
next
  case (Int64Attribute v)
  then show ?thesis by (cases v) simp_all
next
  case (Float64Attribute v)
  then show ?thesis by (cases v) simp_all
next
  case (StringAttribute v)
  then show ?thesis by (cases v) simp_all
next
  case (SetAttribute v)
  then show ?thesis by (cases v) simp_all
qed

lemma unset_wire:
  "unset a T = (case attribute_of a T of None \<Rightarrow> False | Some x \<Rightarrow> wire x = Absent)"
  by (simp add: unset_def unset_attribute_wire split: option.splits)

lemma present_wire:
  "present a T = (case attribute_of a T of None \<Rightarrow> False | Some x \<Rightarrow> wire x \<noteq> Absent)"
  by (simp add: present_def unset_attribute_wire split: option.splits)

lemmas getters = bool_attribute_def int_attribute_def float_attribute_def string_attribute_def set_attribute_def
lemmas partitions = indexerBoolFields_def indexerIntFields_def indexerFloatFields_def indexerStringFields_def indexerIntSliceFields_def

lemma attribute_of_update_bool:
  "attribute_of m (i\<lparr>AllowZeroSize := b\<rparr>) = (if m = ''allowZeroSize'' then Some (BoolAttribute b) else attribute_of m i)"
  "attribute_of m (i\<lparr>AnimeStandardFormatSearch := b\<rparr>) = (if m = ''animeStandardFormatSearch'' then Some (BoolAttribute b) else attribute_of m i)"
  "attribute_of m (i\<lparr>RankedOnly := b\<rparr>) = (if m = ''rankedOnly'' then Some (BoolAttribute b) else attribute_of m i)"
  by (simp_all add: attribute_of_def getters)

lemma attribute_of_update_int:
  "attribute_of m (i\<lparr>Delay := w\<rparr>) = (if m = ''delay'' then Some (Int64Attribute w) else attribute_of m i)"
  "attribute_of m (i\<lparr>MinimumSeeders := w\<rparr>) = (if m = ''minimumSeeders'' then Some (Int64Attribute w) else attribute_of m i)"
  "attribute_of m (i\<lparr>SeasonPackSeedTime := w\<rparr>) = (if m = ''seasonPackSeedTime'' then Some (Int64Attribute w) else attribute_of m i)"
  "attribute_of m (i\<lparr>SeedTime := w\<rparr>) = (if m = ''seedTime'' then Some (Int64Attribute w) else attribute_of m i)"
  by (simp_all add: attribute_of_def getters)

lemma attribute_of_update_float:
  "attribute_of m (i\<lparr>SeedRatio := x\<rparr>) = (if m = ''seedRatio'' then Some (Float64Attribute x) else attribute_of m i)"
  by (simp_all add: attribute_of_def getters)

lemma attribute_of_update_string:
  "attribute_of m (i\<lparr>AdditionalParameters := s\<rparr>) = (if m = ''additionalParameters'' then Some (StringAttribute s) else attribute_of m i)"
  "attribute_of m (i\<lparr>APIKey := s\<rparr>) = (if m = ''apiKey'' then Some (StringAttribute s) else attribute_of m i)"
  "attribute_of m (i\<lparr>APIPath := s\<rparr>) = (if m = ''apiPath'' then Some (StringAttribute s) else attribute_of m i)"
  "attribute_of m (i\<lparr>BaseURL := s\<rparr>) = (if m = ''baseUrl'' then Some (StringAttribute s) else attribute_of m i)"
  "attribute_of m (i\<lparr>CaptchaToken := s\<rparr>) = (if m = ''captchaToken'' then Some (StringAttribute s) else attribute_of m i)"
  "attribute_of m (i\<lparr>Cookie := s\<rparr>) = (if m = ''cookie'' then Some (StringAttribute s) else attribute_of m i)"
  "attribute_of m (i\<lparr>Passkey := s\<rparr>) = (if m = ''passkey'' then Some (StringAttribute s) else attribute_of m i)"
  "attribute_of m (i\<lparr>Username := s\<rparr>) = (if m = ''username'' then Some (StringAttribute s) else attribute_of m i)"
  by (simp_all add: attribute_of_def getters)

lemma attribute_of_update_set:
  "attribute_of m (i\<lparr>Categories := c\<rparr>) = (if m = ''categories'' then Some (SetAttribute c) else attribute_of m i)"
  "attribute_of m (i\<lparr>AnimeCategories := c\<rparr>) = (if m = ''animeCategories'' then Some (SetAttribute c) else attribute_of m i)"
  by (simp_all add: attribute_of_def getters)

lemma set_bool_attribute_Some:
  "a \<in> set indexerBoolFields \<Longrightarrow>
   \<exists>i'. set_bool_attribute a v i = Some i'
     \<and> (\<forall>m. attribute_of m i' = (if m = a then Some (BoolAttribute v) else attribute_of m i))"
  by (auto simp: indexerBoolFields_def set_bool_attribute_def attribute_of_update_bool)

lemma set_int_attribute_Some:
  "a \<in> set indexerIntFields \<Longrightarrow>
   \<exists>i'. set_int_attribute a v i = Some i'
     \<and> (\<forall>m. attribute_of m i' = (if m = a then Some (Int64Attribute v) else attribute_of m i))"
  by (auto simp: indexerIntFields_def set_int_attribute_def attribute_of_update_int)

lemma set_float_attribute_Some:
  "a \<in> set indexerFloatFields \<Longrightarrow>
   \<exists>i'. set_float_attribute a v i = Some i'
     \<and> (\<forall>m. attribute_of m i' = (if m = a then Some (Float64Attribute v) else attribute_of m i))"
  by (auto simp: indexerFloatFields_def set_float_attribute_def attribute_of_update_float)

lemma set_string_attribute_Some:
  "a \<in> set indexerStringFields \<Longrightarrow>
   \<exists>i'. set_string_attribute a v i = Some i'
     \<and> (\<forall>m. attribute_of m i' = (if m = a then Some (StringAttribute v) else attribute_of m i))"
  by (auto simp: indexerStringFields_def set_string_attribute_def attribute_of_update_string)

lemma set_set_attribute_Some:
  "a \<in> set indexerIntSliceFields \<Longrightarrow>
   \<exists>i'. set_set_attribute a v i = Some i'
     \<and> (\<forall>m. attribute_of m i' = (if m = a then Some (SetAttribute v) else attribute_of m i))"
  by (auto simp: indexerIntSliceFields_def set_set_attribute_def attribute_of_update_set)


lemma declared_kind_cases:
  "declared_kind a = Some StringKind \<longleftrightarrow> a \<in> set indexerStringFields"
  "declared_kind a = Some BoolKind \<longleftrightarrow> a \<in> set indexerBoolFields"
  "declared_kind a = Some IntKind \<longleftrightarrow> a \<in> set indexerIntFields"
  "declared_kind a = Some FloatKind \<longleftrightarrow> a \<in> set indexerFloatFields"
  "declared_kind a = Some IntListKind \<longleftrightarrow> a \<in> set indexerIntSliceFields"
  "declared_kind a \<noteq> Some StringListKind"
  by (auto simp: declared_kind_def partitions)

lemma declared_kind_None: "declared_kind a = None \<longleftrightarrow> a \<notin> set indexerFieldOrder"
  by (simp add: declared_kind_def indexerFieldOrder_def)

lemma writeIndexer_field_dispatch:
  "writeIndexer_field f output =
     (if Field_Value f = Absent then Inr output
      else case declared_kind (Field_Name f) of
             None \<Rightarrow> Inr output
           | Some StringKind \<Rightarrow> WriteStringField f output
           | Some BoolKind \<Rightarrow> WriteBoolField f output
           | Some IntKind \<Rightarrow> WriteIntField f output
           | Some FloatKind \<Rightarrow> WriteFloatField f output
           | Some IntListKind \<Rightarrow> WriteIntSliceField f output
           | Some StringListKind \<Rightarrow> Inr output)"
  by (simp add: writeIndexer_field_def declared_kind_def)

lemma Write_mismatch:
  "kind_of (Field_Value f) \<noteq> Some StringKind \<Longrightarrow> WriteStringField f output = Inl (TypeMismatch (Field_Name f))"
  "kind_of (Field_Value f) \<noteq> Some BoolKind \<Longrightarrow> WriteBoolField f output = Inl (TypeMismatch (Field_Name f))"
  "kind_of (Field_Value f) \<noteq> Some IntKind \<Longrightarrow> WriteIntField f output = Inl (TypeMismatch (Field_Name f))"
  "kind_of (Field_Value f) \<noteq> Some FloatKind \<Longrightarrow> WriteFloatField f output = Inl (TypeMismatch (Field_Name f))"
  "kind_of (Field_Value f) \<noteq> Some IntListKind \<Longrightarrow> WriteIntSliceField f output = Inl (TypeMismatch (Field_Name f))"
  by (cases "Field_Value f";
      simp add: WriteStringField_def WriteBoolField_def WriteIntField_def WriteFloatField_def
        WriteIntSliceField_def)+

lemma WriteStringField_typed:
  assumes "Field_Name f \<in> set indexerStringFields" "kind_of (Field_Value f) = Some StringKind"
  shows "\<exists>output'. WriteStringField f output = Inr output' \<and> sets_attribute f output output'"
proof -
  from assms(2) obtain s where s: "Field_Value f = StringValue s"
    by (cases "Field_Value f") simp_all
  from set_string_attribute_Some [OF assms(1), of "Known s" "output"]
  obtain i' where "set_string_attribute (Field_Name f) (Known s) output = Some i'"
    and "\<forall>m. attribute_of m i' = (if m = Field_Name f then Some (StringAttribute (Known s)) else attribute_of m output)"
    by blast
  then show ?thesis
    using s by (auto simp: WriteStringField_def assign_def sets_attribute_def intro!: exI [of _ "StringAttribute (Known s)"])
qed

lemma WriteBoolField_typed:
  assumes "Field_Name f \<in> set indexerBoolFields" "kind_of (Field_Value f) = Some BoolKind"
  shows "\<exists>output'. WriteBoolField f output = Inr output' \<and> sets_attribute f output output'"
proof -
  from assms(2) obtain s where s: "Field_Value f = BoolValue s"
    by (cases "Field_Value f") simp_all
  from set_bool_attribute_Some [OF assms(1), of "Known s" "output"]
  obtain i' where "set_bool_attribute (Field_Name f) (Known s) output = Some i'"
    and "\<forall>m. attribute_of m i' = (if m = Field_Name f then Some (BoolAttribute (Known s)) else attribute_of m output)"
    by blast
  then show ?thesis
    using s by (auto simp: WriteBoolField_def assign_def sets_attribute_def intro!: exI [of _ "BoolAttribute (Known s)"])
qed

lemma WriteIntField_typed:
  assumes "Field_Name f \<in> set indexerIntFields" "kind_of (Field_Value f) = Some IntKind"
  shows "\<exists>output'. WriteIntField f output = Inr output' \<and> sets_attribute f output output'"
proof -
  from assms(2) obtain s where s: "Field_Value f = IntValue s"
    by (cases "Field_Value f") simp_all
  from set_int_attribute_Some [OF assms(1), of "Known (word_of_int s)" "output"]
  obtain i' where "set_int_attribute (Field_Name f) (Known (word_of_int s)) output = Some i'"
    and "\<forall>m. attribute_of m i' = (if m = Field_Name f then Some (Int64Attribute (Known (word_of_int s))) else attribute_of m output)"
    by blast
  then show ?thesis
    using s by (auto simp: WriteIntField_def assign_def sets_attribute_def intro!: exI [of _ "Int64Attribute (Known (word_of_int s))"])
qed

lemma WriteFloatField_typed:
  assumes "Field_Name f \<in> set indexerFloatFields" "kind_of (Field_Value f) = Some FloatKind"
  shows "\<exists>output'. WriteFloatField f output = Inr output' \<and> sets_attribute f output output'"
proof -
  from assms(2) obtain s where s: "Field_Value f = FloatValue s"
    by (cases "Field_Value f") simp_all
  from set_float_attribute_Some [OF assms(1), of "Known s" "output"]
  obtain i' where "set_float_attribute (Field_Name f) (Known s) output = Some i'"
    and "\<forall>m. attribute_of m i' = (if m = Field_Name f then Some (Float64Attribute (Known s)) else attribute_of m output)"
    by blast
  then show ?thesis
    using s by (auto simp: WriteFloatField_def assign_def sets_attribute_def intro!: exI [of _ "Float64Attribute (Known s)"])
qed

lemma WriteIntSliceField_typed:
  assumes "Field_Name f \<in> set indexerIntSliceFields" "kind_of (Field_Value f) = Some IntListKind"
  shows "\<exists>output'. WriteIntSliceField f output = Inr output' \<and> sets_attribute f output output'"
proof -
  from assms(2) obtain s where s: "Field_Value f = IntListValue s"
    by (cases "Field_Value f") simp_all
  from set_set_attribute_Some [OF assms(1), of "Known (map word_of_int s)" "output"]
  obtain i' where "set_set_attribute (Field_Name f) (Known (map word_of_int s)) output = Some i'"
    and "\<forall>m. attribute_of m i' = (if m = Field_Name f then Some (SetAttribute (Known (map word_of_int s))) else attribute_of m output)"
    by blast
  then show ?thesis
    using s by (auto simp: WriteIntSliceField_def assign_def sets_attribute_def intro!: exI [of _ "SetAttribute (Known (map word_of_int s))"])
qed

lemma writeIndexer_field_typed:
  assumes "Field_Value f \<noteq> Absent" "declared_kind (Field_Name f) = kind_of (Field_Value f)"
  shows "\<exists>output'. writeIndexer_field f output = Inr output' \<and> sets_attribute f output output'"
proof -
  from assms(1) obtain k where k: "kind_of (Field_Value f) = Some k"
    by (cases "Field_Value f") simp_all
  with assms(2) have d: "declared_kind (Field_Name f) = Some k"
    by simp
  show ?thesis
  proof (cases k)
    case BoolKind
    have "writeIndexer_field f output = WriteBoolField f output"
      using d BoolKind assms(1) by (simp add: writeIndexer_field_dispatch)
    moreover have "Field_Name f \<in> set indexerBoolFields"
      using d BoolKind by (simp add: declared_kind_cases)
    ultimately show ?thesis
      using WriteBoolField_typed [of f "output"] k BoolKind by simp
  next
    case IntKind
    have "writeIndexer_field f output = WriteIntField f output"
      using d IntKind assms(1) by (simp add: writeIndexer_field_dispatch)
    moreover have "Field_Name f \<in> set indexerIntFields"
      using d IntKind by (simp add: declared_kind_cases)
    ultimately show ?thesis
      using WriteIntField_typed [of f "output"] k IntKind by simp
  next
    case FloatKind
    have "writeIndexer_field f output = WriteFloatField f output"
      using d FloatKind assms(1) by (simp add: writeIndexer_field_dispatch)
    moreover have "Field_Name f \<in> set indexerFloatFields"
      using d FloatKind by (simp add: declared_kind_cases)
    ultimately show ?thesis
      using WriteFloatField_typed [of f "output"] k FloatKind by simp
  next
    case StringKind
    have "writeIndexer_field f output = WriteStringField f output"
      using d StringKind assms(1) by (simp add: writeIndexer_field_dispatch)
    moreover have "Field_Name f \<in> set indexerStringFields"
      using d StringKind by (simp add: declared_kind_cases)
    ultimately show ?thesis
      using WriteStringField_typed [of f "output"] k StringKind by simp
  next
    case IntListKind
    have "writeIndexer_field f output = WriteIntSliceField f output"
      using d IntListKind assms(1) by (simp add: writeIndexer_field_dispatch)
    moreover have "Field_Name f \<in> set indexerIntSliceFields"
      using d IntListKind by (simp add: declared_kind_cases)
    ultimately show ?thesis
      using WriteIntSliceField_typed [of f "output"] k IntListKind by simp
  next
    case StringListKind
    with d show ?thesis
      by (simp add: declared_kind_cases)
  qed
qed

lemma writeIndexer_field_mismatch:
  assumes "Field_Value f \<noteq> Absent" "declared_kind (Field_Name f) = Some k"
    "kind_of (Field_Value f) \<noteq> Some k"
  shows "writeIndexer_field f output = Inl (TypeMismatch (Field_Name f))"
  using assms declared_kind_cases(6) [of "Field_Name f"]
  by (cases k) (simp_all add: writeIndexer_field_dispatch Write_mismatch)

lemma writeIndexer_field_skip:
  "Field_Value f = Absent \<or> declared_kind (Field_Name f) = None \<Longrightarrow> writeIndexer_field f output = Inr output"
  by (auto simp: writeIndexer_field_dispatch)


subsection \<open>The loop of the inbound direction\<close>

lemma writeIndexer_field_frame:
  assumes "writeIndexer_field f output = Inr output'"
    and "Field_Value f = Absent \<or> Field_Name f \<noteq> a"
  shows "attribute_of a output' = attribute_of a output"
proof (cases "Field_Value f = Absent \<or> declared_kind (Field_Name f) = None")
  case True
  then show ?thesis
    using assms(1) writeIndexer_field_skip [of f "output"] by simp
next
  case False
  then obtain k where k: "declared_kind (Field_Name f) = Some k" and v: "Field_Value f \<noteq> Absent"
    by auto
  have "kind_of (Field_Value f) = Some k"
    using writeIndexer_field_mismatch [OF v k, of "output"] assms(1) by auto
  with k v obtain o' where "writeIndexer_field f output = Inr o'" "sets_attribute f output o'"
    using writeIndexer_field_typed [of f "output"] by auto
  with assms v show ?thesis
    by (auto simp: sets_attribute_def)
qed

lemma writeIndexer_fields_frame:
  "writeIndexer_fields L output = Inr output' \<Longrightarrow>
   \<forall>f \<in> set L. Field_Name f = a \<longrightarrow> Field_Value f = Absent \<Longrightarrow>
   attribute_of a output' = attribute_of a output"
proof (induction L arbitrary: "output")
  case Nil
  then show ?case by simp
next
  case (Cons f L)
  from Cons.prems(1) obtain o1 where o1: "writeIndexer_field f output = Inr o1"
    and rest: "writeIndexer_fields L o1 = Inr output'"
    by (auto split: sum.splits)
  have "attribute_of a o1 = attribute_of a output"
    using writeIndexer_field_frame [OF o1, of a] Cons.prems(2) by auto
  moreover have "attribute_of a output' = attribute_of a o1"
    using Cons.IH [OF rest] Cons.prems(2) by simp
  ultimately show ?case by simp
qed

lemma writeIndexer_fields_append:
  "writeIndexer_fields (L1 @ L2) output =
     (case writeIndexer_fields L1 output of Inl p \<Rightarrow> Inl p | Inr o1 \<Rightarrow> writeIndexer_fields L2 o1)"
  by (induction L1 arbitrary: "output") (auto split: sum.splits)

lemma writeIndexer_fields_skip_all:
  "\<forall>g \<in> set L. Field_Name g \<notin> set indexerFieldOrder \<Longrightarrow>
   writeIndexer_fields L output = Inr output"
  by (induction L) (simp_all add: writeIndexer_field_skip declared_kind_None)

lemma writeIndexer_fields_typed:
  assumes "\<forall>f \<in> set L. Field_Value f \<noteq> Absent
             \<and> declared_kind (Field_Name f) = kind_of (Field_Value f)"
    and "distinct (map Field_Name L)"
  shows "\<exists>output'. writeIndexer_fields L output = Inr output'
           \<and> (\<forall>f \<in> set L. \<exists>x. attribute_of (Field_Name f) output' = Some x
                                 \<and> wire x = narrowed (Field_Value f))"
  using assms
proof (induction L arbitrary: "output")
  case Nil
  then show ?case by simp
next
  case (Cons f L)
  from Cons.prems(1) obtain o1 where o1: "writeIndexer_field f output = Inr o1"
    and s1: "sets_attribute f output o1"
    using writeIndexer_field_typed [of f "output"] by auto
  from Cons.IH [of o1] Cons.prems obtain o2 where o2: "writeIndexer_fields L o1 = Inr o2"
    and all: "\<forall>g \<in> set L. \<exists>x. attribute_of (Field_Name g) o2 = Some x
                                  \<and> wire x = narrowed (Field_Value g)"
    by auto
  have "\<forall>g \<in> set L. Field_Name g = Field_Name f \<longrightarrow> Field_Value g = Absent"
    using Cons.prems(2) by (auto simp: image_iff)
  from writeIndexer_fields_frame [OF o2 this]
  have "attribute_of (Field_Name f) o2 = attribute_of (Field_Name f) o1" .
  with s1 have "\<exists>x. attribute_of (Field_Name f) o2 = Some x \<and> wire x = narrowed (Field_Value f)"
    by (auto simp: sets_attribute_def)
  with o1 o2 all show ?case
    by simp
qed

lemma writeIndexer_fields_returns_iff:
  "(\<exists>output'. writeIndexer_fields L output = Inr output') \<longleftrightarrow>
   (\<forall>f \<in> set L. Field_Value f = Absent \<or> declared_kind (Field_Name f) = None
       \<or> declared_kind (Field_Name f) = kind_of (Field_Value f))"
proof (induction L arbitrary: "output")
  case Nil
  then show ?case by simp
next
  case (Cons f L)
  show ?case
  proof (cases "Field_Value f = Absent \<or> declared_kind (Field_Name f) = None")
    case True
    then have "writeIndexer_field f output = Inr output"
      by (rule writeIndexer_field_skip)
    with True Cons.IH [of "output"] show ?thesis
      by auto
  next
    case False
    then obtain k where k: "declared_kind (Field_Name f) = Some k" and v: "Field_Value f \<noteq> Absent"
      by auto
    show ?thesis
    proof (cases "kind_of (Field_Value f) = Some k")
      case True
      with k v obtain o1 where "writeIndexer_field f output = Inr o1"
        using writeIndexer_field_typed [of f "output"] by auto
      with True k v Cons.IH [of o1] show ?thesis
        by auto
    next
      case False
      with k v have "writeIndexer_field f output = Inl (TypeMismatch (Field_Name f))"
        by (simp add: writeIndexer_field_mismatch)
      with False k v show ?thesis
        by auto
    qed
  qed
qed

lemma writeIndexer_fields_panic:
  "writeIndexer_fields L output = Inl p \<Longrightarrow>
   \<exists>f \<in> set L. p = TypeMismatch (Field_Name f) \<and> Field_Value f \<noteq> Absent
      \<and> declared_kind (Field_Name f) \<noteq> None
      \<and> declared_kind (Field_Name f) \<noteq> kind_of (Field_Value f)"
proof (induction L arbitrary: "output")
  case Nil
  then show ?case by simp
next
  case (Cons f L)
  show ?case
  proof (cases "writeIndexer_field f output")
    case (Inr o1)
    with Cons show ?thesis by auto
  next
    case (Inl q)
    with Cons.prems have q: "q = p" by simp
    have v: "Field_Value f \<noteq> Absent" and d: "declared_kind (Field_Name f) \<noteq> None"
      using Inl writeIndexer_field_skip [of f "output"] by auto
    then obtain k where k: "declared_kind (Field_Name f) = Some k" by auto
    have nk: "kind_of (Field_Value f) \<noteq> Some k"
      using writeIndexer_field_typed [of f "output"] v k Inl by auto
    from writeIndexer_field_mismatch [OF v k nk, of "output"] Inl q
    have "p = TypeMismatch (Field_Name f)" by simp
    with v k nk show ?thesis by auto
  qed
qed


subsection \<open>The outbound direction\<close>

lemma attribute_of_partition:
  "a \<in> set indexerBoolFields \<Longrightarrow>
     \<exists>v. bool_attribute a T = Some v \<and> attribute_of a T = Some (BoolAttribute v)"
  "a \<in> set indexerIntFields \<Longrightarrow>
     \<exists>v. int_attribute a T = Some v \<and> attribute_of a T = Some (Int64Attribute v)"
  "a \<in> set indexerFloatFields \<Longrightarrow>
     \<exists>v. float_attribute a T = Some v \<and> attribute_of a T = Some (Float64Attribute v)"
  "a \<in> set indexerStringFields \<Longrightarrow>
     \<exists>v. string_attribute a T = Some v \<and> attribute_of a T = Some (StringAttribute v)"
  "a \<in> set indexerIntSliceFields \<Longrightarrow>
     \<exists>v. set_attribute a T = Some v \<and> attribute_of a T = Some (SetAttribute v)"
  by (auto simp: partitions attribute_of_def getters)

lemma Read_entry_of:
  "a \<in> set indexerBoolFields \<Longrightarrow> ReadBoolField a T = entry_of a T"
  "a \<in> set indexerIntFields \<Longrightarrow> ReadIntField a T = entry_of a T"
  "a \<in> set indexerFloatFields \<Longrightarrow> ReadFloatField a T = entry_of a T"
  "a \<in> set indexerStringFields \<Longrightarrow> ReadStringField a T = entry_of a T"
  "a \<in> set indexerIntSliceFields \<Longrightarrow> ReadIntSliceField a T = entry_of a T"
proof -
  show "ReadBoolField a T = entry_of a T" if "a \<in> set indexerBoolFields"
  proof -
    from attribute_of_partition(1) [OF that, of T] obtain v
      where "bool_attribute a T = Some v" "attribute_of a T = Some (BoolAttribute v)" by blast
    then show ?thesis
      by (cases v) (simp_all add: ReadBoolField_def entry_of_def)
  qed
  show "ReadIntField a T = entry_of a T" if "a \<in> set indexerIntFields"
  proof -
    from attribute_of_partition(2) [OF that, of T] obtain v
      where "int_attribute a T = Some v" "attribute_of a T = Some (Int64Attribute v)" by blast
    then show ?thesis
      by (cases v) (simp_all add: ReadIntField_def entry_of_def)
  qed
  show "ReadFloatField a T = entry_of a T" if "a \<in> set indexerFloatFields"
  proof -
    from attribute_of_partition(3) [OF that, of T] obtain v
      where "float_attribute a T = Some v" "attribute_of a T = Some (Float64Attribute v)" by blast
    then show ?thesis
      by (cases v) (simp_all add: ReadFloatField_def entry_of_def)
  qed
  show "ReadStringField a T = entry_of a T" if "a \<in> set indexerStringFields"
  proof -
    from attribute_of_partition(4) [OF that, of T] obtain v
      where "string_attribute a T = Some v" "attribute_of a T = Some (StringAttribute v)" by blast
    then show ?thesis
      by (cases v) (simp_all add: ReadStringField_def entry_of_def)
  qed
  show "ReadIntSliceField a T = entry_of a T" if "a \<in> set indexerIntSliceFields"
  proof -
    from attribute_of_partition(5) [OF that, of T] obtain v
      where "set_attribute a T = Some v" "attribute_of a T = Some (SetAttribute v)" by blast
    then show ?thesis
      by (cases v) (simp_all add: ReadIntSliceField_def entry_of_def)
  qed
qed

lemma appendFields_map_filter:
  "appendFields rd ns T acc = acc @ List.map_filter (\<lambda>n. rd n T) ns"
  by (induction ns arbitrary: acc) (auto split: option.splits)

lemma map_filter_append:
  "List.map_filter g (xs @ ys) = List.map_filter g xs @ List.map_filter g ys"
  by (simp add: List.map_filter_def)

lemma map_filter_cong_set:
  "(\<And>x. x \<in> set xs \<Longrightarrow> g x = h x) \<Longrightarrow> List.map_filter g xs = List.map_filter h xs"
proof (induction xs)
  case Nil
  then show ?case by simp
next
  case (Cons a xs)
  have "g a = h a"
    using Cons.prems by simp
  moreover have "List.map_filter g xs = List.map_filter h xs"
    using Cons by simp
  ultimately show ?case by (simp split: option.split)
qed

lemma readIndexerFields_map_filter:
  "readIndexerFields T = List.map_filter (\<lambda>a. entry_of a T) indexerFieldOrder"
proof -
  have "List.map_filter (\<lambda>n. ReadBoolField n T) indexerBoolFields
      = List.map_filter (\<lambda>a. entry_of a T) indexerBoolFields"
    by (rule map_filter_cong_set) (rule Read_entry_of)
  moreover have "List.map_filter (\<lambda>n. ReadIntField n T) indexerIntFields
      = List.map_filter (\<lambda>a. entry_of a T) indexerIntFields"
    by (rule map_filter_cong_set) (rule Read_entry_of)
  moreover have "List.map_filter (\<lambda>n. ReadFloatField n T) indexerFloatFields
      = List.map_filter (\<lambda>a. entry_of a T) indexerFloatFields"
    by (rule map_filter_cong_set) (rule Read_entry_of)
  moreover have "List.map_filter (\<lambda>n. ReadStringField n T) indexerStringFields
      = List.map_filter (\<lambda>a. entry_of a T) indexerStringFields"
    by (rule map_filter_cong_set) (rule Read_entry_of)
  moreover have "List.map_filter (\<lambda>n. ReadIntSliceField n T) indexerIntSliceFields
      = List.map_filter (\<lambda>a. entry_of a T) indexerIntSliceFields"
    by (rule map_filter_cong_set) (rule Read_entry_of)
  ultimately show ?thesis
    by (simp add: readIndexerFields_def appendFields_map_filter indexerFieldOrder_def
          map_filter_append)
qed

lemma entry_of_Some:
  "entry_of a T = Some e \<Longrightarrow> Field_Name e = a \<and> Field_Value e \<noteq> Absent \<and> present a T"
  by (auto simp: entry_of_def present_wire split: option.splits if_splits)

lemma entry_of_None: "entry_of a T = None \<longleftrightarrow> \<not> present a T"
  by (auto simp: entry_of_def present_wire split: option.splits)

lemma map_filter_entry_names:
  "map Field_Name (List.map_filter (\<lambda>a. entry_of a T) ns) = filter (\<lambda>a. present a T) ns"
proof (induction ns)
  case Nil
  then show ?case by simp
next
  case (Cons a ns)
  show ?case
  proof (cases "entry_of a T")
    case None
    moreover from None have "\<not> present a T"
      by (simp add: entry_of_None)
    ultimately show ?thesis
      using Cons.IH by simp
  next
    case (Some e)
    moreover from Some have "Field_Name e = a" "present a T"
      using entry_of_Some by blast+
    ultimately show ?thesis
      using Cons.IH by simp
  qed
qed

lemma set_map_filter_entries:
  "set (List.map_filter (\<lambda>a. entry_of a T) ns)
     = {e. Field_Name e \<in> set ns \<and> entry_of (Field_Name e) T = Some e}"
proof (induction ns)
  case Nil
  then show ?case by simp
next
  case (Cons a ns)
  show ?case
  proof (cases "entry_of a T")
    case None
    then show ?thesis
      using Cons.IH by auto
  next
    case (Some e)
    then have "Field_Name e = a"
      using entry_of_Some by blast
    with Some show ?thesis
      using Cons.IH by auto
  qed
qed

lemma indexerFieldOrder_distinct: "distinct indexerFieldOrder"
  by (simp add: indexerFieldOrder_def partitions)

lemma attribute_of_bound: "attribute_of a T \<noteq> None \<longleftrightarrow> a \<in> set indexerFieldOrder"
proof
  assume "a \<in> set indexerFieldOrder"
  then show "attribute_of a T \<noteq> None"
    using attribute_of_partition [of a T] by (auto simp: indexerFieldOrder_def)
next
  assume *: "attribute_of a T \<noteq> None"
  show "a \<in> set indexerFieldOrder"
  proof (rule ccontr)
    assume "a \<notin> set indexerFieldOrder"
    then have "attribute_of a T = None"
      by (simp add: indexerFieldOrder_def partitions attribute_of_def getters)
    with * show False by simp
  qed
qed

lemma unset_iff: "unset a T \<longleftrightarrow> a \<in> set indexerFieldOrder \<and> \<not> present a T"
  using attribute_of_bound [of a T] by (auto simp: unset_wire present_wire split: option.splits)

lemma sint_int64: "- (2 ^ 63) \<le> i \<Longrightarrow> i < 2 ^ 63 \<Longrightarrow> sint (word_of_int i :: int64) = i"
  by (simp add: sint_sbintrunc' signed_take_bit_int_eq_self)

lemma narrowed_representable: "representable v \<Longrightarrow> narrowed v = v"
proof (cases v)
  case (IntValue i)
  assume "representable v"
  with IntValue have "sint (word_of_int i :: int64) = i"
    by (simp add: in_int64_def sint_int64)
  with IntValue show ?thesis by simp
next
  case (IntListValue vs)
  assume "representable v"
  with IntListValue have "\<forall>i \<in> set vs. sint (word_of_int i :: int64) = i"
    by (simp add: in_int64_def list_all_iff sint_int64)
  then have "map (\<lambda>v. sint (word_of_int v :: int64)) vs = vs"
    by (simp add: map_idI)
  with IntListValue show ?thesis by simp
qed simp_all


subsection \<open>Evaluation on concrete inputs\<close>

lemmas helpers = WriteStringField_def WriteBoolField_def WriteIntField_def WriteFloatField_def
  WriteIntSliceField_def ReadBoolField_def ReadIntField_def ReadFloatField_def
  ReadStringField_def ReadIntSliceField_def assign_def set_bool_attribute_def
  set_int_attribute_def set_float_attribute_def set_string_attribute_def set_set_attribute_def

lemma sample_read:
  "readIndexerFields sample_Indexer =
     [\<lparr>Field_Name = ''allowZeroSize'', Field_Value = BoolValue True\<rparr>,
      \<lparr>Field_Name = ''delay'', Field_Value = IntValue 5\<rparr>,
      \<lparr>Field_Name = ''seedRatio'', Field_Value = FloatValue 0x3FF8000000000000\<rparr>,
      \<lparr>Field_Name = ''apiKey'', Field_Value = StringValue ''k''\<rparr>,
      \<lparr>Field_Name = ''categories'', Field_Value = IntListValue []\<rparr>]"
  by (simp add: readIndexerFields_def sample_Indexer_def null_Indexer_def partitions helpers getters)


subsection \<open>The record of the struct literal of \<^verbatim>\<open>writeIndexer\<close>\<close>

lemma find_distinct_name:
  "distinct (map Field_Name L) \<Longrightarrow> f \<in> set L \<Longrightarrow>
   find (\<lambda>g. Field_Name g = Field_Name f) L = Some f"
proof (induction L)
  case Nil
  then show ?case by simp
next
  case (Cons g L)
  show ?case
  proof (cases "f = g")
    case True
    then show ?thesis by simp
  next
    case False
    with Cons.prems have "f \<in> set L" "Field_Name g \<noteq> Field_Name f"
      by (auto simp: image_iff)
    with Cons show ?thesis by simp
  qed
qed

lemma find_name_None:
  "find (\<lambda>g. Field_Name g = a) L = None \<longleftrightarrow> a \<notin> Field_Name ` set L"
  by (induction L) auto

lemma find_name_Some:
  "find (\<lambda>g. Field_Name g = a) L = Some f \<Longrightarrow> f \<in> set L \<and> Field_Name f = a"
  by (induction L) (auto split: if_splits)

lemma writeIndexer_fields_entries:
  assumes "round_trip_input L"
  shows "\<exists>output'. writeIndexer_fields L output = Inr output'
           \<and> (\<forall>a. entry_of a output' =
                  (case find (\<lambda>f. Field_Name f = a) L of
                     None \<Rightarrow> entry_of a output | Some f \<Rightarrow> Some f))"
proof -
  from assms have typed: "\<forall>f \<in> set L. Field_Value f \<noteq> Absent
      \<and> declared_kind (Field_Name f) = kind_of (Field_Value f) \<and> representable (Field_Value f)"
    and names: "distinct (map Field_Name L)"
    by (simp_all add: round_trip_input_def list_all_iff)
  from writeIndexer_fields_typed [OF _ names, of "output"] typed
  obtain o' where run: "writeIndexer_fields L output = Inr o'"
    and written: "\<forall>f \<in> set L. \<exists>x. attribute_of (Field_Name f) o' = Some x
                                      \<and> wire x = narrowed (Field_Value f)"
    by auto
  have "entry_of a o' = (case find (\<lambda>f. Field_Name f = a) L of
                     None \<Rightarrow> entry_of a output | Some f \<Rightarrow> Some f)" for a
  proof (cases "find (\<lambda>f. Field_Name f = a) L")
    case None
    then have "\<forall>f \<in> set L. Field_Name f = a \<longrightarrow> Field_Value f = Absent"
      by (auto simp: find_name_None)
    from writeIndexer_fields_frame [OF run this]
    have "entry_of a o' = entry_of a output"
      by (simp add: entry_of_def)
    with None show ?thesis by simp
  next
    case (Some f)
    then have f: "f \<in> set L" "Field_Name f = a"
      using find_name_Some by blast+
    with written obtain x where "attribute_of a o' = Some x" "wire x = narrowed (Field_Value f)"
      by blast
    moreover have "narrowed (Field_Value f) = Field_Value f" "Field_Value f \<noteq> Absent"
      using typed f narrowed_representable by auto
    ultimately have "entry_of a o' = Some f"
      using f by (simp add: entry_of_def)
    with Some show ?thesis by simp
  qed
  with run show ?thesis by blast
qed

lemma map_filter_total:
  "(\<And>x. x \<in> set xs \<Longrightarrow> g x = Some (h x)) \<Longrightarrow> List.map_filter g xs = map h xs"
proof (induction xs)
  case Nil
  then show ?case by simp
next
  case (Cons a xs)
  have "g a = Some (h a)"
    using Cons.prems by simp
  moreover have "List.map_filter g xs = map h xs"
    using Cons by simp
  ultimately show ?case by simp
qed

text \<open>The record on which the field loop of \<^verbatim>\<open>writeIndexer\<close> begins.\<close>

lemma literal_getters:
  "a \<in> set indexerBoolFields \<Longrightarrow>
     bool_attribute a ((writeIndexer_literal indexer)\<lparr>Tags := t\<rparr>) = Some (Known False)"
  "a \<in> set indexerIntFields \<Longrightarrow>
     int_attribute a ((writeIndexer_literal indexer)\<lparr>Tags := t\<rparr>) = Some (Known 0)"
  "a \<in> set indexerFloatFields \<Longrightarrow>
     float_attribute a ((writeIndexer_literal indexer)\<lparr>Tags := t\<rparr>) = Some (Known 0)"
  "a \<in> set indexerStringFields \<Longrightarrow>
     string_attribute a ((writeIndexer_literal indexer)\<lparr>Tags := t\<rparr>) = Some (Known [])"
  "a \<in> set indexerIntSliceFields \<Longrightarrow>
     set_attribute a ((writeIndexer_literal indexer)\<lparr>Tags := t\<rparr>) = Some (Known [])"
proof -
  let ?S = "(writeIndexer_literal indexer)\<lparr>Tags := t\<rparr>"
  have sel: "AllowZeroSize ?S = Known False" "AnimeStandardFormatSearch ?S = Known False"
    "RankedOnly ?S = Known False" "Delay ?S = Known 0" "MinimumSeeders ?S = Known 0"
    "SeasonPackSeedTime ?S = Known 0" "SeedTime ?S = Known 0" "SeedRatio ?S = Known 0"
    "AdditionalParameters ?S = Known []" "APIKey ?S = Known []" "APIPath ?S = Known []"
    "BaseURL ?S = Known []" "CaptchaToken ?S = Known []" "Cookie ?S = Known []"
    "Passkey ?S = Known []" "Username ?S = Known []" "Categories ?S = Known []"
    "AnimeCategories ?S = Known []"
    by (simp_all add: writeIndexer_literal_def)
  show "a \<in> set indexerBoolFields \<Longrightarrow> bool_attribute a ?S = Some (Known False)"
    by (auto simp: indexerBoolFields_def bool_attribute_def sel)
  show "a \<in> set indexerIntFields \<Longrightarrow> int_attribute a ?S = Some (Known 0)"
    by (auto simp: indexerIntFields_def int_attribute_def sel)
  show "a \<in> set indexerFloatFields \<Longrightarrow> float_attribute a ?S = Some (Known 0)"
    by (auto simp: indexerFloatFields_def float_attribute_def sel)
  show "a \<in> set indexerStringFields \<Longrightarrow> string_attribute a ?S = Some (Known [])"
    by (auto simp: indexerStringFields_def string_attribute_def sel)
  show "a \<in> set indexerIntSliceFields \<Longrightarrow> set_attribute a ?S = Some (Known [])"
    by (auto simp: indexerIntSliceFields_def set_attribute_def sel)
qed

lemma literal_attribute:
  "a \<in> set indexerBoolFields \<Longrightarrow>
     attribute_of a ((writeIndexer_literal indexer)\<lparr>Tags := t\<rparr>) = Some (BoolAttribute (Known False))"
  "a \<in> set indexerIntFields \<Longrightarrow>
     attribute_of a ((writeIndexer_literal indexer)\<lparr>Tags := t\<rparr>) = Some (Int64Attribute (Known 0))"
  "a \<in> set indexerFloatFields \<Longrightarrow>
     attribute_of a ((writeIndexer_literal indexer)\<lparr>Tags := t\<rparr>) = Some (Float64Attribute (Known 0))"
  "a \<in> set indexerStringFields \<Longrightarrow>
     attribute_of a ((writeIndexer_literal indexer)\<lparr>Tags := t\<rparr>) = Some (StringAttribute (Known []))"
  "a \<in> set indexerIntSliceFields \<Longrightarrow>
     attribute_of a ((writeIndexer_literal indexer)\<lparr>Tags := t\<rparr>) = Some (SetAttribute (Known []))"
proof -
  let ?S = "(writeIndexer_literal indexer)\<lparr>Tags := t\<rparr>"
  show "attribute_of a ?S = Some (BoolAttribute (Known False))" if "a \<in> set indexerBoolFields"
    using attribute_of_partition(1) [OF that, of ?S] literal_getters(1) [OF that, of t indexer]
    by auto
  show "attribute_of a ?S = Some (Int64Attribute (Known 0))" if "a \<in> set indexerIntFields"
    using attribute_of_partition(2) [OF that, of ?S] literal_getters(2) [OF that, of t indexer]
    by auto
  show "attribute_of a ?S = Some (Float64Attribute (Known 0))" if "a \<in> set indexerFloatFields"
    using attribute_of_partition(3) [OF that, of ?S] literal_getters(3) [OF that, of t indexer]
    by auto
  show "attribute_of a ?S = Some (StringAttribute (Known []))" if "a \<in> set indexerStringFields"
    using attribute_of_partition(4) [OF that, of ?S] literal_getters(4) [OF that, of t indexer]
    by auto
  show "attribute_of a ?S = Some (SetAttribute (Known []))" if "a \<in> set indexerIntSliceFields"
    using attribute_of_partition(5) [OF that, of ?S] literal_getters(5) [OF that, of t indexer]
    by auto
qed

lemma literal_zero:
  assumes "declared_kind a = Some k"
  shows "\<exists>x. attribute_of a ((writeIndexer_literal indexer)\<lparr>Tags := t\<rparr>) = Some x
           \<and> wire x = zero_value k"
proof (cases k)
  case BoolKind
  with assms show ?thesis
    using literal_attribute(1) [of a] by (simp add: declared_kind_cases)
next
  case IntKind
  with assms show ?thesis
    using literal_attribute(2) [of a] by (simp add: declared_kind_cases)
next
  case FloatKind
  with assms show ?thesis
    using literal_attribute(3) [of a] by (simp add: declared_kind_cases)
next
  case StringKind
  with assms show ?thesis
    using literal_attribute(4) [of a] by (simp add: declared_kind_cases)
next
  case IntListKind
  with assms show ?thesis
    using literal_attribute(5) [of a] by (simp add: declared_kind_cases)
next
  case StringListKind
  with assms show ?thesis
    by (simp add: declared_kind_cases)
qed

lemma zero_value_present: "zero_value k \<noteq> Absent"
  by (cases k) simp_all

lemma literal_entry:
  assumes "a \<in> set indexerFieldOrder"
  shows "entry_of a ((writeIndexer_literal indexer)\<lparr>Tags := t\<rparr>) = Some (zero_entry a)"
proof -
  from assms obtain k where k: "declared_kind a = Some k"
    using declared_kind_None [of a] by auto
  from literal_zero [OF k] obtain x
    where "attribute_of a ((writeIndexer_literal indexer)\<lparr>Tags := t\<rparr>) = Some x"
      "wire x = zero_value k"
    by blast
  with k show ?thesis
    by (simp add: entry_of_def zero_entry_def zero_value_present)
qed

lemma indexerFieldOrder_length: "length indexerFieldOrder = 18"
  by (simp add: indexerFieldOrder_def partitions)


lemma attribute_of_Tags: "attribute_of a (T\<lparr>Tags := t\<rparr>) = attribute_of a T"
  by (simp add: attribute_of_def getters)

lemma sample_written_run:
  "writeIndexer ValueFrom_known (response_with sample_fields) = Inr sample_written"
  by (simp add: writeIndexer_def Let_def ValueFrom_known_def response_with_def
        writeIndexer_literal_def sample_written_def sample_fields_def writeIndexer_field_def
        partitions helpers)

lemma sample_written_read:
  "readIndexerFields sample_written =
     [\<lparr>Field_Name = ''allowZeroSize'', Field_Value = BoolValue True\<rparr>,
      \<lparr>Field_Name = ''animeStandardFormatSearch'', Field_Value = BoolValue False\<rparr>,
      \<lparr>Field_Name = ''rankedOnly'', Field_Value = BoolValue False\<rparr>,
      \<lparr>Field_Name = ''delay'', Field_Value = IntValue 5\<rparr>,
      \<lparr>Field_Name = ''minimumSeeders'', Field_Value = IntValue 0\<rparr>,
      \<lparr>Field_Name = ''seasonPackSeedTime'', Field_Value = IntValue 0\<rparr>,
      \<lparr>Field_Name = ''seedTime'', Field_Value = IntValue 0\<rparr>,
      \<lparr>Field_Name = ''seedRatio'', Field_Value = FloatValue 0x3FF8000000000000\<rparr>,
      \<lparr>Field_Name = ''additionalParameters'', Field_Value = StringValue []\<rparr>,
      \<lparr>Field_Name = ''apiKey'', Field_Value = StringValue ''k''\<rparr>,
      \<lparr>Field_Name = ''apiPath'', Field_Value = StringValue []\<rparr>,
      \<lparr>Field_Name = ''baseUrl'', Field_Value = StringValue []\<rparr>,
      \<lparr>Field_Name = ''captchaToken'', Field_Value = StringValue []\<rparr>,
      \<lparr>Field_Name = ''cookie'', Field_Value = StringValue []\<rparr>,
      \<lparr>Field_Name = ''passkey'', Field_Value = StringValue []\<rparr>,
      \<lparr>Field_Name = ''username'', Field_Value = StringValue []\<rparr>,
      \<lparr>Field_Name = ''categories'', Field_Value = IntListValue []\<rparr>,
      \<lparr>Field_Name = ''animeCategories'', Field_Value = IntListValue []\<rparr>]"
  by (simp add: readIndexerFields_def sample_written_def writeIndexer_literal_def
        response_with_def partitions helpers getters)

lemma sample_fields_input: "round_trip_input sample_fields"
  by (simp add: round_trip_input_def sample_fields_def indexerFieldOrder_def declared_kind_def
        partitions in_int64_def)

lemma frame_written_run:
  "writeIndexer ValueFrom_known (response_with frame_fields) = Inr frame_written"
  by (simp add: writeIndexer_def Let_def ValueFrom_known_def response_with_def
        writeIndexer_literal_def frame_written_def frame_fields_def writeIndexer_field_def
        partitions helpers)

subsection \<open>The claims about the marshaler\<close>

text \<open>
  C1. Round trip, as the code has it. Let \<open>L\<close> be a list of entries as in the claim: names
  pairwise distinct and drawn from the five partitions, values present, of the declared
  type and within its range. \<^verbatim>\<open>writeIndexer\<close> on a response with the fields \<open>L\<close> succeeds, and
  \<^verbatim>\<open>readIndexerFields\<close> on its result gives, for each of the 18 declared names in partition
  order, the entry of \<open>L\<close> of that name, or else the entry of that name with the zero value
  of its type (false, 0, 0.0, the empty string, the empty list), which is the state the
  struct literal of \<^verbatim>\<open>writeIndexer\<close> leaves the attribute in. So every entry of \<open>L\<close> is
  reproduced, every other entry is such a zero entry of a name without entry in \<open>L\<close>, the
  output has 18 entries, and it has the same set of entries as \<open>L\<close> exactly when \<open>L\<close>
  has an entry for every declared name.
\<close>

theorem writeIndexer_round_trip_zero_values:
  assumes "round_trip_input L" and "Output_Fields indexer = L"
  shows "\<exists>output'. writeIndexer ValueFrom indexer = Inr output'
     \<and> readIndexerFields output' =
         map (\<lambda>a. case find (\<lambda>f. Field_Name f = a) L of None \<Rightarrow> zero_entry a | Some f \<Rightarrow> f)
           indexerFieldOrder
     \<and> set L \<subseteq> set (readIndexerFields output')
     \<and> (\<forall>e \<in> set (readIndexerFields output').
           e \<in> set L \<or> (Field_Name e \<notin> Field_Name ` set L \<and> e = zero_entry (Field_Name e)))
     \<and> length (readIndexerFields output') = 18
     \<and> (set (readIndexerFields output') = set L \<longleftrightarrow> Field_Name ` set L = set indexerFieldOrder)"
proof -
  let ?S = "(writeIndexer_literal indexer)
      \<lparr>Tags := ValueFrom (Output_Tags indexer) (Tags (writeIndexer_literal indexer))\<rparr>"
  let ?h = "\<lambda>a. case find (\<lambda>f. Field_Name f = a) L of None \<Rightarrow> zero_entry a | Some f \<Rightarrow> f"
  have W: "writeIndexer ValueFrom indexer = writeIndexer_fields L ?S"
    by (simp add: writeIndexer_def Let_def assms(2))
  from assms(1) have inorder: "\<forall>f \<in> set L. Field_Name f \<in> set indexerFieldOrder"
    and names: "distinct (map Field_Name L)"
    by (simp_all add: round_trip_input_def list_all_iff)
  from writeIndexer_fields_entries [OF assms(1), of ?S]
  obtain o' where run: "writeIndexer_fields L ?S = Inr o'"
    and ent: "\<And>a. entry_of a o' =
                  (case find (\<lambda>f. Field_Name f = a) L of
                     None \<Rightarrow> entry_of a ?S | Some f \<Rightarrow> Some f)"
    by blast
  have E: "entry_of a o' = Some (?h a)" if "a \<in> set indexerFieldOrder" for a
    using ent [of a] literal_entry [OF that] by (simp split: option.splits)
  have "List.map_filter (\<lambda>a. entry_of a o') indexerFieldOrder = map ?h indexerFieldOrder"
    by (rule map_filter_total) (rule E)
  then have R: "readIndexerFields o' = map ?h indexerFieldOrder"
    by (simp add: readIndexerFields_map_filter)
  have hL: "?h (Field_Name f) = f" if "f \<in> set L" for f
    using find_distinct_name [OF names that] by simp
  have hname: "Field_Name (?h a) = a" for a
  proof (cases "find (\<lambda>f. Field_Name f = a) L")
    case None
    then show ?thesis by (simp add: zero_entry_def)
  next
    case (Some f)
    then show ?thesis using find_name_Some [OF Some] by simp
  qed
  have sub: "set L \<subseteq> set (readIndexerFields o')"
  proof
    fix f assume f: "f \<in> set L"
    with inorder have "Field_Name f \<in> set indexerFieldOrder" by simp
    then have "?h (Field_Name f) \<in> ?h ` set indexerFieldOrder"
      by (rule imageI)
    then have "?h (Field_Name f) \<in> set (readIndexerFields o')"
      by (simp only: R set_map)
    with hL [OF f] show "f \<in> set (readIndexerFields o')" by simp
  qed
  have others: "e \<in> set L \<or> (Field_Name e \<notin> Field_Name ` set L \<and> e = zero_entry (Field_Name e))"
    if "e \<in> set (readIndexerFields o')" for e
  proof -
    from that R obtain a where a: "e = ?h a"
      by auto
    show ?thesis
    proof (cases "find (\<lambda>f. Field_Name f = a) L")
      case None
      with a have "e = zero_entry a" by simp
      moreover from None have "a \<notin> Field_Name ` set L" by (simp add: find_name_None)
      ultimately show ?thesis by (simp add: zero_entry_def)
    next
      case (Some f)
      with a find_name_Some [OF Some] show ?thesis by simp
    qed
  qed
  have len: "length (readIndexerFields o') = 18"
    by (simp add: R indexerFieldOrder_length)
  have rnames: "map Field_Name (readIndexerFields o') = indexerFieldOrder"
    unfolding R by (simp add: hname comp_def)
  have iff: "set (readIndexerFields o') = set L \<longleftrightarrow> Field_Name ` set L = set indexerFieldOrder"
  proof
    assume "set (readIndexerFields o') = set L"
    then have "Field_Name ` set L = set (map Field_Name (readIndexerFields o'))"
      by simp
    then show "Field_Name ` set L = set indexerFieldOrder"
      by (simp only: rnames)
  next
    assume all: "Field_Name ` set L = set indexerFieldOrder"
    have "set (readIndexerFields o') \<subseteq> set L"
    proof
      fix e assume e: "e \<in> set (readIndexerFields o')"
      then have "Field_Name e \<in> set (map Field_Name (readIndexerFields o'))"
        by simp
      then have "Field_Name e \<in> Field_Name ` set L"
        by (simp only: rnames all)
      with others [OF e] show "e \<in> set L" by blast
    qed
    with sub show "set (readIndexerFields o') = set L" by blast
  qed
  from W run R sub others len iff show ?thesis
    by auto
qed

theorem writeIndexer_round_trip_zero_values_witness:
  "\<exists>output'. writeIndexer ValueFrom_known (response_with sample_fields) = Inr output'
     \<and> set sample_fields \<subseteq> set (readIndexerFields output')
     \<and> length (readIndexerFields output') = 18"
proof -
  have "Output_Fields (response_with sample_fields) = sample_fields"
    by (simp add: response_with_def)
  from writeIndexer_round_trip_zero_values [OF sample_fields_input this, of ValueFrom_known]
  show ?thesis
    by blast
qed

theorem round_trip_counterexample:
  "round_trip_input sample_fields
   \<and> Output_Fields (response_with sample_fields) = sample_fields
   \<and> writeIndexer ValueFrom_known (response_with sample_fields) = Inr sample_written
   \<and> length (readIndexerFields sample_written) = 18
   \<and> length sample_fields = 5
   \<and> \<lparr>Field_Name = ''cookie'', Field_Value = StringValue []\<rparr> \<in> set (readIndexerFields sample_written)
   \<and> \<lparr>Field_Name = ''cookie'', Field_Value = StringValue []\<rparr> \<notin> set sample_fields
   \<and> set (readIndexerFields sample_written) \<noteq> set sample_fields"
proof -
  have 1: "\<lparr>Field_Name = ''cookie'', Field_Value = StringValue []\<rparr>
      \<in> set (readIndexerFields sample_written)"
    by (simp add: sample_written_read)
  have 2: "\<lparr>Field_Name = ''cookie'', Field_Value = StringValue []\<rparr> \<notin> set sample_fields"
    by (simp add: sample_fields_def)
  from 1 2 have 3: "set (readIndexerFields sample_written) \<noteq> set sample_fields"
    by blast
  have 4: "length (readIndexerFields sample_written) = 18"
    by (simp add: sample_written_read)
  have 5: "length sample_fields = 5" "Output_Fields (response_with sample_fields) = sample_fields"
    by (simp_all add: sample_fields_def response_with_def)
  from 1 2 3 4 5 sample_fields_input sample_written_run show ?thesis
    by blast
qed

text \<open>
  C2. Omission. An unset field-backed attribute has no entry in the list
  \<^verbatim>\<open>readIndexerFields\<close> produces. Every entry of the list is the entry of an attribute that is
  present, and carries a value.
\<close>

theorem readIndexerFields_omits_unset:
  "(unset a T \<longrightarrow> a \<notin> Field_Name ` set (readIndexerFields T))
   \<and> (\<forall>e \<in> set (readIndexerFields T).
         present (Field_Name e) T \<and> \<not> unset (Field_Name e) T \<and> Field_Value e \<noteq> Absent)"
proof -
  have "set (map Field_Name (readIndexerFields T)) = {a \<in> set indexerFieldOrder. present a T}"
    by (simp add: readIndexerFields_map_filter map_filter_entry_names)
  then have "a \<notin> Field_Name ` set (readIndexerFields T)" if "unset a T"
    using that by (simp add: unset_iff)
  moreover have "present (Field_Name e) T \<and> \<not> unset (Field_Name e) T \<and> Field_Value e \<noteq> Absent"
    if "e \<in> set (readIndexerFields T)" for e
  proof -
    from that have "entry_of (Field_Name e) T = Some e"
      by (simp add: readIndexerFields_map_filter set_map_filter_entries)
    then show ?thesis
      using entry_of_Some [of "Field_Name e" T e] by (simp add: unset_iff)
  qed
  ultimately show ?thesis
    by blast
qed

theorem readIndexerFields_omits_unset_witness:
  "unset ''cookie'' sample_Indexer
   \<and> ''cookie'' \<notin> Field_Name ` set (readIndexerFields sample_Indexer)
   \<and> present ''apiKey'' sample_Indexer"
proof -
  have u: "unset ''cookie'' sample_Indexer"
    by (simp add: unset_wire attribute_of_def getters sample_Indexer_def null_Indexer_def)
  have m: "\<lparr>Field_Name = ''apiKey'', Field_Value = StringValue ''k''\<rparr>
      \<in> set (readIndexerFields sample_Indexer)"
    by (simp add: sample_read)
  from readIndexerFields_omits_unset [of "''cookie''" sample_Indexer] u m
  show ?thesis
    by fastforce
qed

text \<open>
  C5. Uniqueness and closure. The list \<^verbatim>\<open>readIndexerFields\<close> produces never has two
  entries of the same name, and every name in it is a member of one of the five partitions.
  The five partitions have no name in common and none twice.
\<close>

theorem readIndexerFields_names_unique_declared:
  "distinct (map Field_Name (readIndexerFields T))
   \<and> set (map Field_Name (readIndexerFields T))
       \<subseteq> set indexerBoolFields \<union> set indexerIntFields \<union> set indexerFloatFields
          \<union> set indexerStringFields \<union> set indexerIntSliceFields
   \<and> distinct (indexerBoolFields @ indexerIntFields @ indexerFloatFields
                @ indexerStringFields @ indexerIntSliceFields)"
proof -
  have "map Field_Name (readIndexerFields T) = filter (\<lambda>a. present a T) indexerFieldOrder"
    by (simp add: readIndexerFields_map_filter map_filter_entry_names)
  moreover have "distinct indexerFieldOrder"
    by (rule indexerFieldOrder_distinct)
  ultimately show ?thesis
    by (auto simp: indexerFieldOrder_def)
qed

theorem readIndexerFields_names_unique_declared_witness:
  "distinct (map Field_Name (readIndexerFields sample_Indexer))
   \<and> length (readIndexerFields sample_Indexer) = 5
   \<and> ''apiKey'' \<in> set indexerStringFields"
  using readIndexerFields_names_unique_declared [of sample_Indexer]
  by (simp add: sample_read indexerStringFields_def)

text \<open>
  C8. Order. \<^verbatim>\<open>readIndexerFields\<close> emits the entries of the present attributes partition by
  partition: the booleans, then the integers, the floats, the strings and the integer
  lists, each partition in the order of its declared list of names. The list is a function
  of the record: equal records give the same entries in the same order.
\<close>

theorem readIndexerFields_partition_order:
  "readIndexerFields T =
       List.map_filter (\<lambda>a. entry_of a T) indexerBoolFields
     @ List.map_filter (\<lambda>a. entry_of a T) indexerIntFields
     @ List.map_filter (\<lambda>a. entry_of a T) indexerFloatFields
     @ List.map_filter (\<lambda>a. entry_of a T) indexerStringFields
     @ List.map_filter (\<lambda>a. entry_of a T) indexerIntSliceFields
   \<and> map Field_Name (readIndexerFields T) =
       filter (\<lambda>a. present a T) indexerBoolFields
     @ filter (\<lambda>a. present a T) indexerIntFields
     @ filter (\<lambda>a. present a T) indexerFloatFields
     @ filter (\<lambda>a. present a T) indexerStringFields
     @ filter (\<lambda>a. present a T) indexerIntSliceFields
   \<and> (T = T' \<longrightarrow> readIndexerFields T = readIndexerFields T')"
proof -
  have "readIndexerFields T = List.map_filter (\<lambda>a. entry_of a T) indexerFieldOrder"
    by (rule readIndexerFields_map_filter)
  moreover have "map Field_Name (readIndexerFields T) = filter (\<lambda>a. present a T) indexerFieldOrder"
    by (simp add: readIndexerFields_map_filter map_filter_entry_names)
  ultimately show ?thesis
    by (simp add: indexerFieldOrder_def map_filter_append)
qed

theorem readIndexerFields_partition_order_witness:
  "map Field_Name (readIndexerFields sample_Indexer)
     = [''allowZeroSize'', ''delay'', ''seedRatio'', ''apiKey'', ''categories'']"
proof -
  have "map Field_Name (readIndexerFields sample_Indexer) =
       filter (\<lambda>a. present a sample_Indexer) indexerBoolFields
     @ filter (\<lambda>a. present a sample_Indexer) indexerIntFields
     @ filter (\<lambda>a. present a sample_Indexer) indexerFloatFields
     @ filter (\<lambda>a. present a sample_Indexer) indexerStringFields
     @ filter (\<lambda>a. present a sample_Indexer) indexerIntSliceFields"
    using readIndexerFields_partition_order [of sample_Indexer sample_Indexer] by blast
  then show ?thesis
    by (simp add: present_wire attribute_of_def getters partitions sample_Indexer_def
          null_Indexer_def)
qed

text \<open>
  C3. Forward compatibility. An entry whose name is in none of the five partitions is
  passed over by the loop of \<^verbatim>\<open>writeIndexer\<close>: the body of the loop returns the record as it
  was, whatever the value of the entry. Translating a list with such an entry gives exactly
  the result of translating the list without it, and a list of such entries only is
  translated without error to the record the loop began with.
\<close>

theorem writeIndexer_fields_unknown_name:
  assumes "Field_Name f \<notin> set indexerStringFields \<union> set indexerBoolFields
             \<union> set indexerIntFields \<union> set indexerFloatFields \<union> set indexerIntSliceFields"
  shows "writeIndexer_field f output = Inr output
    \<and> writeIndexer_fields (L1 @ f # L2) output = writeIndexer_fields (L1 @ L2) output
    \<and> ((\<forall>g \<in> set L. Field_Name g \<notin> set indexerStringFields \<union> set indexerBoolFields
             \<union> set indexerIntFields \<union> set indexerFloatFields \<union> set indexerIntSliceFields)
         \<longrightarrow> writeIndexer_fields (f # L) output = Inr output)"
proof -
  have skip: "writeIndexer_field f out = Inr out" for out
    using assms by (simp add: writeIndexer_field_def)
  have step: "writeIndexer_fields (f # L2) out = writeIndexer_fields L2 out" for out
    by (simp add: skip)
  have "writeIndexer_fields (L1 @ f # L2) output = writeIndexer_fields (L1 @ L2) output"
    by (simp only: writeIndexer_fields_append step)
  moreover have "writeIndexer_fields (f # L) output = Inr output"
    if "\<forall>g \<in> set L. Field_Name g \<notin> set indexerStringFields \<union> set indexerBoolFields
             \<union> set indexerIntFields \<union> set indexerFloatFields \<union> set indexerIntSliceFields"
  proof -
    from that have "\<forall>g \<in> set L. Field_Name g \<notin> set indexerFieldOrder"
      by (auto simp: indexerFieldOrder_def)
    then have "writeIndexer_fields L output = Inr output"
      by (rule writeIndexer_fields_skip_all)
    with skip show ?thesis
      by simp
  qed
  ultimately show ?thesis
    using skip by blast
qed

theorem writeIndexer_fields_unknown_name_witness:
  "writeIndexer_fields
     [\<lparr>Field_Name = ''apiKey'', Field_Value = StringValue ''k''\<rparr>,
      \<lparr>Field_Name = ''futureField'', Field_Value = IntValue 1\<rparr>,
      \<lparr>Field_Name = ''delay'', Field_Value = IntValue 5\<rparr>] null_Indexer
   = Inr (null_Indexer\<lparr>APIKey := Known ''k'', Delay := Known 5\<rparr>)
   \<and> writeIndexer_fields
     [\<lparr>Field_Name = ''futureField'', Field_Value = IntValue 1\<rparr>,
      \<lparr>Field_Name = ''APIKEY'', Field_Value = BoolValue True\<rparr>] null_Indexer
   = Inr null_Indexer"
proof -
  let ?f = "\<lparr>Field_Name = ''futureField'', Field_Value = IntValue 1\<rparr>"
  let ?g = "\<lparr>Field_Name = ''APIKEY'', Field_Value = BoolValue True\<rparr>"
  let ?k = "\<lparr>Field_Name = ''apiKey'', Field_Value = StringValue ''k''\<rparr>"
  let ?d = "\<lparr>Field_Name = ''delay'', Field_Value = IntValue 5\<rparr>"
  have p: "Field_Name ?f \<notin> set indexerStringFields \<union> set indexerBoolFields
          \<union> set indexerIntFields \<union> set indexerFloatFields \<union> set indexerIntSliceFields"
    by (simp add: partitions)
  have q: "\<forall>g \<in> set [?g]. Field_Name g \<notin> set indexerStringFields \<union> set indexerBoolFields
          \<union> set indexerIntFields \<union> set indexerFloatFields \<union> set indexerIntSliceFields"
    by (simp add: partitions)
  have only: "writeIndexer_fields (?f # [?g]) null_Indexer = Inr null_Indexer"
    by (rule writeIndexer_fields_unknown_name [OF p, THEN conjunct2, THEN conjunct2, THEN mp])
      (rule q)
  have "writeIndexer_fields ([?k] @ ?f # [?d]) null_Indexer
      = writeIndexer_fields ([?k] @ [?d]) null_Indexer"
    by (rule writeIndexer_fields_unknown_name [OF p, THEN conjunct2, THEN conjunct1])
  also have "\<dots> = Inr (null_Indexer\<lparr>APIKey := Known ''k'', Delay := Known 5\<rparr>)"
    by (simp add: null_Indexer_def writeIndexer_field_def partitions helpers)
  finally have "writeIndexer_fields ([?k] @ ?f # [?d]) null_Indexer
      = Inr (null_Indexer\<lparr>APIKey := Known ''k'', Delay := Known 5\<rparr>)" .
  then have "writeIndexer_fields [?k, ?f, ?d] null_Indexer
      = Inr (null_Indexer\<lparr>APIKey := Known ''k'', Delay := Known 5\<rparr>)"
    by (simp only: append_Cons append_Nil)
  with only show ?thesis
    by (rule conjI [rotated])
qed

text \<open>
  C4. Empty lists. For a field \<open>a\<close> of the integer-list partition, translating the single
  entry of \<open>a\<close> with the empty list succeeds and leaves \<open>a\<close> present with the empty list,
  which is not the unset state. \<^verbatim>\<open>readIndexerFields\<close> on a record in which \<open>a\<close> is present
  with the empty list emits the entry of \<open>a\<close> with the empty list, whereas on a record in
  which \<open>a\<close> is null or unknown it emits no entry of \<open>a\<close>.
\<close>

theorem empty_list_is_present:
  assumes "a \<in> set indexerIntSliceFields"
  shows "(\<exists>output'. writeIndexer_fields [\<lparr>Field_Name = a, Field_Value = IntListValue []\<rparr>] output
              = Inr output'
            \<and> attribute_of a output' = Some (SetAttribute (Known []))
            \<and> present a output' \<and> \<not> unset a output')
    \<and> (attribute_of a T = Some (SetAttribute (Known [])) \<longrightarrow>
          \<lparr>Field_Name = a, Field_Value = IntListValue []\<rparr> \<in> set (readIndexerFields T))
    \<and> (attribute_of a T = Some (SetAttribute Null) \<or> attribute_of a T = Some (SetAttribute Unknown)
          \<longrightarrow> unset a T \<and> a \<notin> Field_Name ` set (readIndexerFields T))"
proof -
  let ?f = "\<lparr>Field_Name = a, Field_Value = IntListValue []\<rparr>"
  have order: "a \<in> set indexerFieldOrder"
    using assms by (simp add: indexerFieldOrder_def)
  have "declared_kind a = Some IntListKind"
    using assms by (simp add: declared_kind_cases)
  then have "writeIndexer_field ?f output = WriteIntSliceField ?f output"
    by (simp add: writeIndexer_field_dispatch)
  moreover from set_set_attribute_Some [OF assms, of "Known []" "output"]
  obtain o' where "set_set_attribute a (Known []) output = Some o'"
    and "attribute_of a o' = Some (SetAttribute (Known []))"
    by auto
  ultimately have "writeIndexer_fields [?f] output = Inr o'"
    and "attribute_of a o' = Some (SetAttribute (Known []))"
    by (simp_all add: WriteIntSliceField_def assign_def)
  then have 1: "\<exists>output'. writeIndexer_fields [?f] output = Inr output'
            \<and> attribute_of a output' = Some (SetAttribute (Known []))
            \<and> present a output' \<and> \<not> unset a output'"
    by (simp add: present_wire unset_wire)
  have 2: "?f \<in> set (readIndexerFields T)" if "attribute_of a T = Some (SetAttribute (Known []))"
  proof -
    from that have "entry_of a T = Some ?f"
      by (simp add: entry_of_def)
    with order show ?thesis
      by (simp add: readIndexerFields_map_filter set_map_filter_entries)
  qed
  have 3: "unset a T \<and> a \<notin> Field_Name ` set (readIndexerFields T)"
    if "attribute_of a T = Some (SetAttribute Null) \<or> attribute_of a T = Some (SetAttribute Unknown)"
  proof -
    from that have u: "unset a T"
      by (auto simp: unset_wire)
    have "set (map Field_Name (readIndexerFields T)) = {a \<in> set indexerFieldOrder. present a T}"
      by (simp add: readIndexerFields_map_filter map_filter_entry_names)
    with u show ?thesis
      by (simp add: unset_iff)
  qed
  from 1 2 3 show ?thesis
    by blast
qed

theorem empty_list_is_present_witness:
  "writeIndexer_fields [\<lparr>Field_Name = ''categories'', Field_Value = IntListValue []\<rparr>] null_Indexer
     = Inr (null_Indexer\<lparr>Categories := Known []\<rparr>)
   \<and> \<lparr>Field_Name = ''categories'', Field_Value = IntListValue []\<rparr>
       \<in> set (readIndexerFields (null_Indexer\<lparr>Categories := Known []\<rparr>))
   \<and> ''categories'' \<notin> Field_Name ` set (readIndexerFields null_Indexer)"
proof -
  have m: "''categories'' \<in> set indexerIntSliceFields"
    by (simp add: indexerIntSliceFields_def)
  note inst = empty_list_is_present [OF m, of null_Indexer]
  have a1: "attribute_of ''categories'' (null_Indexer\<lparr>Categories := Known []\<rparr>)
      = Some (SetAttribute (Known []))"
    by (simp add: attribute_of_def getters)
  have a2: "attribute_of ''categories'' null_Indexer = Some (SetAttribute Null)"
    by (simp add: attribute_of_def getters null_Indexer_def)
  have "writeIndexer_fields [\<lparr>Field_Name = ''categories'', Field_Value = IntListValue []\<rparr>]
      null_Indexer = Inr (null_Indexer\<lparr>Categories := Known []\<rparr>)"
    by (simp add: writeIndexer_field_def partitions helpers)
  moreover have "\<lparr>Field_Name = ''categories'', Field_Value = IntListValue []\<rparr>
       \<in> set (readIndexerFields (null_Indexer\<lparr>Categories := Known []\<rparr>))"
    using inst [of "null_Indexer\<lparr>Categories := Known []\<rparr>"] a1 by blast
  moreover have "''categories'' \<notin> Field_Name ` set (readIndexerFields null_Indexer)"
    using inst [of null_Indexer] a2 by blast
  ultimately show ?thesis
    by blast
qed

text \<open>
  C6. Fail fast. The loop of \<^verbatim>\<open>writeIndexer\<close> returns a record exactly when every entry
  that has a value and a name of one of the partitions has a value of the declared type of
  that partition. Otherwise it panics with a type mismatch at such an entry: it neither
  returns a record with a defaulted value nor an error the caller could handle. When every
  value matches its declared type the panic is unreachable.
\<close>

theorem writeIndexer_fields_fail_fast:
  "((\<exists>output'. writeIndexer_fields L output = Inr output') \<longleftrightarrow>
      (\<forall>f \<in> set L. Field_Value f = Absent \<or> declared_kind (Field_Name f) = None
          \<or> declared_kind (Field_Name f) = kind_of (Field_Value f)))
   \<and> (\<forall>p. writeIndexer_fields L output = Inl p \<longrightarrow>
        (\<exists>f \<in> set L. p = TypeMismatch (Field_Name f) \<and> Field_Value f \<noteq> Absent
           \<and> declared_kind (Field_Name f) \<noteq> None
           \<and> declared_kind (Field_Name f) \<noteq> kind_of (Field_Value f)))
   \<and> (Field_Value g \<noteq> Absent \<and> declared_kind (Field_Name g) \<noteq> None
        \<and> declared_kind (Field_Name g) \<noteq> kind_of (Field_Value g) \<longrightarrow>
        writeIndexer_field g output = Inl (TypeMismatch (Field_Name g)))"
proof -
  have "writeIndexer_field g output = Inl (TypeMismatch (Field_Name g))"
    if "Field_Value g \<noteq> Absent" "declared_kind (Field_Name g) \<noteq> None"
      "declared_kind (Field_Name g) \<noteq> kind_of (Field_Value g)"
  proof -
    from that(2) obtain k where k: "declared_kind (Field_Name g) = Some k"
      by auto
    with that(3) have "kind_of (Field_Value g) \<noteq> Some k"
      by simp
    with that(1) k show ?thesis
      by (simp add: writeIndexer_field_mismatch)
  qed
  then show ?thesis
    using writeIndexer_fields_returns_iff [of L "output"] writeIndexer_fields_panic [of L "output"]
    by blast
qed

theorem writeIndexer_fields_fail_fast_witness:
  "writeIndexer_fields [\<lparr>Field_Name = ''delay'', Field_Value = StringValue ''abc''\<rparr>] null_Indexer
     = Inl (TypeMismatch ''delay'')
   \<and> (\<exists>output'. writeIndexer_fields sample_fields null_Indexer = Inr output')"
proof -
  let ?g = "\<lparr>Field_Name = ''delay'', Field_Value = StringValue ''abc''\<rparr>"
  have "Field_Value ?g \<noteq> Absent \<and> declared_kind (Field_Name ?g) \<noteq> None
        \<and> declared_kind (Field_Name ?g) \<noteq> kind_of (Field_Value ?g)"
    by (simp add: declared_kind_def partitions)
  with writeIndexer_fields_fail_fast [of "[]" null_Indexer ?g]
  have "writeIndexer_field ?g null_Indexer = Inl (TypeMismatch ''delay'')"
    by simp
  then have 1: "writeIndexer_fields [?g] null_Indexer = Inl (TypeMismatch ''delay'')"
    by simp
  have "\<forall>f \<in> set sample_fields. Field_Value f = Absent \<or> declared_kind (Field_Name f) = None
          \<or> declared_kind (Field_Name f) = kind_of (Field_Value f)"
    by (simp add: sample_fields_def declared_kind_def partitions)
  with writeIndexer_fields_fail_fast [of sample_fields null_Indexer ?g]
  have 2: "\<exists>output'. writeIndexer_fields sample_fields null_Indexer = Inr output'"
    by blast
  from 1 2 show ?thesis
    by blast
qed

text \<open>
  C7. Frame, as the code has it. When no entry of the list has the name \<open>a\<close> together with
  a value, the field loop of \<^verbatim>\<open>writeIndexer\<close>, if it returns, leaves the attribute \<open>a\<close> in
  the state it had before the loop. In \<^verbatim>\<open>writeIndexer\<close> that state is the one the struct
  literal gives a field-backed attribute: present with the zero value of its type (false, 0,
  0.0, the empty string, the empty list), not unset, and \<^verbatim>\<open>readIndexerFields\<close> emits the entry
  of \<open>a\<close> with that value. An entry without a value is skipped before its name is looked at
  and leaves the whole record as it was.
\<close>

theorem writeIndexer_frame_zero_value:
  assumes "\<forall>f \<in> set L. Field_Name f = a \<longrightarrow> Field_Value f = Absent"
  shows "(writeIndexer_fields L output = Inr output' \<longrightarrow>
            attribute_of a output' = attribute_of a output)
    \<and> (Output_Fields indexer = L \<and> writeIndexer ValueFrom indexer = Inr written
          \<and> declared_kind a = Some k \<longrightarrow>
         attribute_of a written = attribute_of a (writeIndexer_literal indexer)
         \<and> (\<exists>x. attribute_of a written = Some x \<and> wire x = zero_value k)
         \<and> present a written \<and> \<not> unset a written
         \<and> \<lparr>Field_Name = a, Field_Value = zero_value k\<rparr> \<in> set (readIndexerFields written))
    \<and> (\<forall>g. Field_Value g = Absent \<longrightarrow> writeIndexer_field g output = Inr output)"
proof -
  have frame: "attribute_of a output' = attribute_of a output"
    if "writeIndexer_fields L output = Inr output'"
    using that assms by (rule writeIndexer_fields_frame)
  have skip: "writeIndexer_field g output = Inr output" if "Field_Value g = Absent" for g
    using that by (simp add: writeIndexer_field_def)
  have code: "attribute_of a written = attribute_of a (writeIndexer_literal indexer)
         \<and> (\<exists>x. attribute_of a written = Some x \<and> wire x = zero_value k)
         \<and> present a written \<and> \<not> unset a written
         \<and> \<lparr>Field_Name = a, Field_Value = zero_value k\<rparr> \<in> set (readIndexerFields written)"
    if L: "Output_Fields indexer = L" and run: "writeIndexer ValueFrom indexer = Inr written"
      and k: "declared_kind a = Some k"
  proof -
    let ?S = "(writeIndexer_literal indexer)
      \<lparr>Tags := ValueFrom (Output_Tags indexer) (Tags (writeIndexer_literal indexer))\<rparr>"
    from run L have "writeIndexer_fields L ?S = Inr written"
      by (simp add: writeIndexer_def Let_def)
    from writeIndexer_fields_frame [OF this assms]
    have eq: "attribute_of a written = attribute_of a ?S" .
    then have eq': "attribute_of a written = attribute_of a (writeIndexer_literal indexer)"
      by (simp add: attribute_of_Tags)
    from literal_zero [OF k] eq obtain x where x: "attribute_of a written = Some x"
      "wire x = zero_value k"
      by metis
    then have p: "present a written" "\<not> unset a written"
      by (simp_all add: present_wire unset_wire zero_value_present)
    have "a \<in> set indexerFieldOrder"
      using k declared_kind_None [of a] by auto
    moreover have "entry_of a written = Some \<lparr>Field_Name = a, Field_Value = zero_value k\<rparr>"
      using x by (simp add: entry_of_def zero_value_present)
    ultimately have "\<lparr>Field_Name = a, Field_Value = zero_value k\<rparr> \<in> set (readIndexerFields written)"
      by (simp add: readIndexerFields_map_filter set_map_filter_entries)
    with eq' x p show ?thesis
      by blast
  qed
  from frame skip code show ?thesis
    by blast
qed

theorem writeIndexer_frame_zero_value_witness:
  "attribute_of ''apiKey'' frame_written
     = attribute_of ''apiKey'' (writeIndexer_literal (response_with frame_fields))
   \<and> present ''apiKey'' frame_written
   \<and> \<lparr>Field_Name = ''apiKey'', Field_Value = StringValue []\<rparr>
       \<in> set (readIndexerFields frame_written)"
proof -
  have 1: "\<forall>f \<in> set frame_fields. Field_Name f = ''apiKey'' \<longrightarrow> Field_Value f = Absent"
    by (simp add: frame_fields_def)
  have 2: "Output_Fields (response_with frame_fields) = frame_fields"
    by (simp add: response_with_def)
  have 3: "declared_kind ''apiKey'' = Some StringKind"
    by (simp add: declared_kind_def partitions)
  from writeIndexer_frame_zero_value [OF 1, of null_Indexer null_Indexer
      "response_with frame_fields" ValueFrom_known frame_written StringKind]
    2 3 frame_written_run
  show ?thesis
    by simp
qed

theorem frame_unset_counterexample:
  "Output_Fields (response_with frame_fields) = frame_fields
   \<and> frame_fields = [\<lparr>Field_Name = ''apiKey'', Field_Value = Absent\<rparr>,
                     \<lparr>Field_Name = ''delay'', Field_Value = IntValue 5\<rparr>]
   \<and> writeIndexer ValueFrom_known (response_with frame_fields) = Inr frame_written
   \<and> attribute_of ''apiKey'' frame_written = Some (StringAttribute (Known []))
   \<and> attribute_of ''cookie'' frame_written = Some (StringAttribute (Known []))
   \<and> \<not> unset ''apiKey'' frame_written
   \<and> \<not> unset ''cookie'' frame_written"
proof -
  have a: "attribute_of ''apiKey'' frame_written = Some (StringAttribute (Known []))"
    "attribute_of ''cookie'' frame_written = Some (StringAttribute (Known []))"
    by (simp_all add: attribute_of_def getters frame_written_def writeIndexer_literal_def)
  then have u: "\<not> unset ''apiKey'' frame_written" "\<not> unset ''cookie'' frame_written"
    by (simp_all add: unset_def)
  have "Output_Fields (response_with frame_fields) = frame_fields"
    by (simp add: response_with_def)
  with a u frame_written_run show ?thesis
    by (simp add: frame_fields_def)
qed

end
